theory Spec2Isabelle
  imports Main "HOL-Library.AList"
begin

section \<open>Go values and control flow\<close>

text \<open>
  A Go function of the engine either returns or panics (index out of range, nil
  dereference). A panic is the value \<open>Panic\<close>; a return is \<open>Ok\<close> of what was
  returned. The returned \<open>error\<close> of Go is an \<open>error option\<close>, \<open>None\<close> for \<open>nil\<close>.
\<close>

datatype 'a res = Panic | Ok 'a

definition bind_res :: "'a res \<Rightarrow> ('a \<Rightarrow> 'b res) \<Rightarrow> 'b res" where
  "bind_res r f = (case r of Panic \<Rightarrow> Panic | Ok v \<Rightarrow> f v)"

text \<open>\<open>xs[i]\<close> on a slice: \<open>None\<close> stands for the index-out-of-range panic.\<close>

definition at_index :: "'a list \<Rightarrow> int \<Rightarrow> 'a option" where
  "at_index xs i = (if 0 \<le> i \<and> i < int (length xs) then Some (xs ! nat i) else None)"

text \<open>Go's \<open>%\<close> truncates towards zero; it is only evaluated with a non-zero divisor.\<close>

definition go_rem :: "int \<Rightarrow> int \<Rightarrow> int" where
  "go_rem a b = sgn a * (\<bar>a\<bar> mod \<bar>b\<bar>)"

text \<open>\<open>strings.Join\<close>\<close>

fun strings_Join :: "string list \<Rightarrow> string \<Rightarrow> string" where
  "strings_Join [] sep = []"
| "strings_Join [x] sep = x"
| "strings_Join (x # y # rest) sep = x @ sep @ strings_Join (y # rest) sep"

text \<open>
  Go's \<open>int\<close> is 64 bits wide on the platforms the engine is built for; the counters
  \<open>GameCount\<close> and \<open>UpdateSerial\<close> are incremented with wrap-around.
\<close>

definition int64_wrap :: "int \<Rightarrow> int" where
  "int64_wrap x = (x + 2 ^ 63) mod 2 ^ 64 - 2 ^ 63"

definition MaxInt64 :: int where
  "MaxInt64 = 2 ^ 63 - 1"

definition MinInt64 :: int where
  "MinInt64 = - (2 ^ 63)"

datatype error =
    ErrTableNoEmptySeats
  | ErrTableInvalidCreateSetting
  | ErrTablePlayerNotFound
  | ErrTablePlayerInvalidGameAction
  | ErrTablePlayerInvalidAction
  | ErrTablePlayerSeatUnavailable
  | ErrTableOpenGameFailed
  | ErrTableOpenGameFailedInBlindBreakingLevel
  | ErrGamePlayerNotFound
  | ErrGameInvalidAction
  | ErrGameUnknownEvent
  | ErrGameUnknownEventHandler
  | ErrExternal string

section \<open>Constants\<close>

definition TableStateStatus_TableGameStandby :: string where
  "TableStateStatus_TableGameStandby = ''standby''"

definition TableStateStatus_TableGamePlaying :: string where
  "TableStateStatus_TableGamePlaying = ''playing''"

definition TableStateStatus_TableClosed :: string where
  "TableStateStatus_TableClosed = ''closed''"

definition TableStateStatus_TableCreated :: string where
  "TableStateStatus_TableCreated = ''created''"

definition TableStateStatus_TablePausing :: string where
  "TableStateStatus_TablePausing = ''pausing''"

definition TableStateStatus_TableBalancing :: string where
  "TableStateStatus_TableBalancing = ''balancing''"

definition TableStateStatus_TableGameOpened :: string where
  "TableStateStatus_TableGameOpened = ''game_opened''"

definition TableStateStatus_TableGameSettled :: string where
  "TableStateStatus_TableGameSettled = ''game_settled''"

text \<open>
  Modelled from the spec: the constant \<open>UnsetValue\<close> is declared outside the files at
  hand. The spec gives the empty seat-map entry as \<open>-1\<close> and calls the start time's
  initial value the sentinel Unset; the test case passes \<open>UnsetValue\<close> as the seat of a
  player without a seat, where the engine compares with \<open>seat_manager.UnsetSeatID\<close>.
\<close>

definition UnsetValue :: int where
  "UnsetValue = - 1"

definition UnsetSeatID :: int where
  "UnsetSeatID = - 1"

text \<open>
  Modelled from the spec: the wager actions, protocol actions and positions are declared
  outside the files at hand; the spec lists their strings.
\<close>

definition WagerAction_Bet :: string where "WagerAction_Bet = ''bet''"
definition WagerAction_Raise :: string where "WagerAction_Raise = ''raise''"
definition WagerAction_Call :: string where "WagerAction_Call = ''call''"
definition WagerAction_Check :: string where "WagerAction_Check = ''check''"
definition WagerAction_Fold :: string where "WagerAction_Fold = ''fold''"
definition WagerAction_AllIn :: string where "WagerAction_AllIn = ''allin''"
definition Position_Dealer :: string where "Position_Dealer = ''dealer''"
definition Position_SB :: string where "Position_SB = ''sb''"
definition Position_BB :: string where "Position_BB = ''bb''"
definition Position_CO :: string where "Position_CO = ''co''"

text \<open>
  Modelled from the spec: rounds, rules, modes and table-state events are named by the
  spec (preflop, flop, turn, river; Default, ShortDeck, Omaha; CT, MTT, Cash; Created,
  StatusUpdated, GameUpdated, GameSettled, PlayersLeave) without their strings. The
  engine only compares them for equality, so each gets a string of its own.
\<close>

definition GameRound_Preflop :: string where "GameRound_Preflop = ''preflop''"
definition GameRound_Flop :: string where "GameRound_Flop = ''flop''"
definition GameRound_Turn :: string where "GameRound_Turn = ''turn''"
definition GameRound_River :: string where "GameRound_River = ''river''"
definition CompetitionRule_Default :: string where "CompetitionRule_Default = ''default''"
definition CompetitionRule_ShortDeck :: string where "CompetitionRule_ShortDeck = ''short_deck''"
definition CompetitionRule_Omaha :: string where "CompetitionRule_Omaha = ''omaha''"
definition CompetitionMode_CT :: string where "CompetitionMode_CT = ''ct''"
definition CompetitionMode_MTT :: string where "CompetitionMode_MTT = ''mtt''"
definition CompetitionMode_Cash :: string where "CompetitionMode_Cash = ''cash''"
definition TableStateEvent_Created :: string where "TableStateEvent_Created = ''table_created''"
definition TableStateEvent_StatusUpdated :: string where
  "TableStateEvent_StatusUpdated = ''table_status_updated''"
definition TableStateEvent_GameUpdated :: string where
  "TableStateEvent_GameUpdated = ''table_game_updated''"
definition TableStateEvent_GameSettled :: string where
  "TableStateEvent_GameSettled = ''table_game_settled''"
definition TableStateEvent_PlayersLeave :: string where
  "TableStateEvent_PlayersLeave = ''table_players_leave''"

definition GameStatisticRound_VPIP :: string where "GameStatisticRound_VPIP = ''vpip''"
definition GameStatisticRound_PFR :: string where "GameStatisticRound_PFR = ''pfr''"
definition GameStatisticRound_ATS :: string where "GameStatisticRound_ATS = ''ats''"
definition GameStatisticRound_ThreeBet :: string where
  "GameStatisticRound_ThreeBet = ''three-bet''"
definition GameStatisticRound_Ft3B :: string where "GameStatisticRound_Ft3B = ''ft3b''"
definition GameStatisticRound_CheckRaise :: string where
  "GameStatisticRound_CheckRaise = ''check-raise''"
definition GameStatisticRound_CBet :: string where "GameStatisticRound_CBet = ''c-bet''"
definition GameStatisticRound_FtCB :: string where "GameStatisticRound_FtCB = ''ftcb''"

section \<open>The hand state of the poker library\<close>

text \<open>
  \<open>pokerlib.GameState\<close> belongs to the hand engine, a library outside the repository.
  The records hold the fields the table engine reads.
\<close>

record GamePlayer =
  gp_Idx :: int
  gp_Positions :: "string list"
  gp_Acted :: bool
  gp_DidAction :: string
  gp_Fold :: bool
  gp_AllowedActions :: "string list"
  gp_Bankroll :: int
  gp_InitialStackSize :: int
  gp_StackSize :: int
  gp_Pot :: int
  gp_Wager :: int
  gp_Power :: int

record GameStatus =
  gs_CurrentEvent :: string
  gs_Round :: string
  gs_CurrentPlayer :: int
  gs_CurrentRaiser :: int
  gs_CurrentWager :: int
  gs_MiniBet :: int

record PlayerResult =
  pr_Idx :: int
  pr_Final :: int

record GameState =
  gs_GameID :: string
  gs_Players :: "GamePlayer list"
  gs_Status :: GameStatus
  gs_Result :: "PlayerResult list option"

datatype GameEvent =
    GameEvent_Started
  | GameEvent_ReadyRequested
  | GameEvent_AnteRequested
  | GameEvent_BlindsRequested
  | GameEvent_RoundStarted
  | GameEvent_RoundClosed
  | GameEvent_GameClosed
  | GameEvent_Other string

datatype DeckPreset = StandardDeck | ShortDeck

record PlayerSetting =
  ps_Bankroll :: int
  ps_Positions :: "string list"

record GameOptions =
  opt_Preset :: DeckPreset
  opt_HoleCards :: "(int \<times> int) option"
  opt_Ante :: int
  opt_BlindDealer :: int
  opt_BlindSB :: int
  opt_BlindBB :: int
  opt_Players :: "PlayerSetting list"

section \<open>The table\<close>

record TablePlayerGameStatistics =
  ActionTimes :: int
  RaiseTimes :: int
  CallTimes :: int
  CheckTimes :: int
  IsFold :: bool
  FoldRound :: string
  IsVPIPChance :: bool
  IsVPIP :: bool
  IsPFRChance :: bool
  IsPFR :: bool
  IsATSChance :: bool
  IsATS :: bool
  Is3BChance :: bool
  Is3B :: bool
  IsFt3BChance :: bool
  IsFt3B :: bool
  IsCheckRaiseChance :: bool
  IsCheckRaise :: bool
  IsCBetChance :: bool
  IsCBet :: bool
  IsFtCBChance :: bool
  IsFtCB :: bool
  ShowdownWinningChance :: bool
  IsShowdownWinning :: bool

definition NewPlayerGameStatistics :: TablePlayerGameStatistics where
  "NewPlayerGameStatistics =
     \<lparr> ActionTimes = 0, RaiseTimes = 0, CallTimes = 0, CheckTimes = 0,
       IsFold = False, FoldRound = '''',
       IsVPIPChance = False, IsVPIP = False,
       IsPFRChance = False, IsPFR = False,
       IsATSChance = False, IsATS = False,
       Is3BChance = False, Is3B = False,
       IsFt3BChance = False, IsFt3B = False,
       IsCheckRaiseChance = False, IsCheckRaise = False,
       IsCBetChance = False, IsCBet = False,
       IsFtCBChance = False, IsFtCB = False,
       ShowdownWinningChance = False, IsShowdownWinning = False \<rparr>"

record TablePlayerState =
  PlayerID :: string
  Seat :: int
  Positions :: "string list"
  Bankroll :: int
  IsIn :: bool
  IsParticipated :: bool
  GameStatistics :: TablePlayerGameStatistics

record TableBlindState =
  Level :: int
  Ante :: int
  Dealer :: int
  SB :: int
  BB :: int
  EndTime :: int

record TableMeta =
  CompetitionID :: string
  Rule :: string
  Mode :: string
  MaxDuration :: int
  TableMaxSeatCount :: int
  TableMinPlayerCount :: int
  MinChipUnit :: int
  ActionTime :: int

record TablePlayerGameAction =
  pga_CompetitionID :: string
  pga_TableID :: string
  pga_GameID :: string
  pga_GameCount :: int
  pga_UpdateAt :: int
  pga_PlayerID :: string
  pga_Action :: string
  pga_Round :: string
  pga_Chips :: int
  pga_Seat :: int
  pga_Positions :: "string list"
  pga_Bankroll :: int
  pga_InitialStackSize :: int
  pga_StackSize :: int
  pga_Pot :: int
  pga_Wager :: int

record JoinPlayer =
  jp_PlayerID :: string
  jp_RedeemChips :: int
  jp_Seat :: int

text \<open>
  \<open>SeatMap\<close> is a Go \<open>map[int]int\<close>: an association list with one entry per key, read
  with \<open>map_of\<close> and written with \<open>AList.update\<close>; \<open>len\<close> is its length. A missing key
  reads as \<open>0\<close>, the zero value. Pointers (\<open>GameState\<close>, \<open>BlindState\<close>,
  \<open>LastPlayerGameAction\<close>, \<open>GameBlindState\<close>) are options, \<open>None\<close> for \<open>nil\<close>.
\<close>

record TableState =
  Status :: string
  GameState :: "GameState option"
  PlayerStates :: "TablePlayerState list"
  GamePlayerIndexes :: "int list"
  GameCount :: int
  StartAt :: int
  BlindState :: "TableBlindState option"
  CurrentDealerSeat :: int
  CurrentSBSeat :: int
  CurrentBBSeat :: int
  SeatMap :: "(int \<times> int) list"
  NextBBOrderPlayerIDs :: "string list"
  LastPlayerGameAction :: "TablePlayerGameAction option"
  CurrentActionEndAt :: int
  GameBlindState :: "TableBlindState option"

record Table =
  ID :: string
  Meta :: TableMeta
  State :: TableState
  UpdateAt :: int
  UpdateSerial :: int

record TableSetting =
  ts_TableID :: string
  ts_Meta :: TableMeta
  ts_JoinPlayers :: "JoinPlayer list"
  ts_Blind :: TableBlindState

record TableEngineOptions =
  GameContinueInterval :: int

definition seat_lookup :: "(int \<times> int) list \<Rightarrow> int \<Rightarrow> int" where
  "seat_lookup m k = (case map_of m k of None \<Rightarrow> 0 | Some v \<Rightarrow> v)"

section \<open>Callbacks fired by the engine\<close>

text \<open>
  The engine reports to its owner through registered callbacks. The model appends one
  entry to a log for each callback fired, oldest first.
\<close>

datatype event =
    TableUpdated string string
  | TableErrorUpdated string string error
  | TableStateUpdated string
  | TablePlayerStateUpdated TablePlayerState
  | TablePlayerReserved TablePlayerState
  | GamePlayerActionUpdated TablePlayerGameAction
  | AutoGameOpenEnd string string
  | ReadyOpenFirstTableGame int "TablePlayerState list"

section \<open>Collaborators\<close>

text \<open>
  The engine holds its hand driver (\<open>Game\<close>), seat manager and open-game manager through
  interfaces, and a ready group and a time bank from libraries. Their states are one
  value of an arbitrary type \<open>'c\<close>; their operations are the fields of the records below,
  each taking the state and returning what the call returns with the new state. Callbacks
  that a collaborator invokes later (a game state arriving, the ready group completing,
  the open-game manager reporting ready) are transitions of the engine in their own right.
\<close>

type_synonym 'c game_move = "'c \<Rightarrow> (GameState option \<times> error option) \<times> 'c"

record 'c GameIface =
  NewGame :: "GameOptions \<Rightarrow> 'c \<Rightarrow> 'c"
  game_GetGameState :: "'c \<Rightarrow> GameState option"
  game_Start :: "'c game_move"
  game_Ready :: "int \<Rightarrow> 'c game_move"
  game_Pay :: "int \<Rightarrow> int \<Rightarrow> 'c game_move"
  game_Pass :: "int \<Rightarrow> 'c game_move"
  game_Fold :: "int \<Rightarrow> 'c game_move"
  game_Check :: "int \<Rightarrow> 'c game_move"
  game_Call :: "int \<Rightarrow> 'c game_move"
  game_Allin :: "int \<Rightarrow> 'c game_move"
  game_Bet :: "int \<Rightarrow> int \<Rightarrow> 'c game_move"
  game_Raise :: "int \<Rightarrow> int \<Rightarrow> 'c game_move"

record 'c SeatManagerIface =
  NewSeatManager :: "int \<Rightarrow> string \<Rightarrow> 'c \<Rightarrow> 'c"
  sm_IsInitPositions :: "'c \<Rightarrow> bool"
  sm_InitPositions :: "bool \<Rightarrow> 'c \<Rightarrow> error option \<times> 'c"
  sm_RotatePositions :: "'c \<Rightarrow> error option \<times> 'c"
  sm_IsPlayerActive :: "string \<Rightarrow> 'c \<Rightarrow> bool \<times> error option"
  sm_CurrentDealerSeatID :: "'c \<Rightarrow> int"
  sm_CurrentSBSeatID :: "'c \<Rightarrow> int"
  sm_CurrentBBSeatID :: "'c \<Rightarrow> int"
  sm_SeatActive :: "'c \<Rightarrow> int \<Rightarrow> bool"
  sm_AssignSeats :: "(string \<times> int) list \<Rightarrow> 'c \<Rightarrow> error option \<times> 'c"
  sm_RandomAssignSeats :: "string list \<Rightarrow> 'c \<Rightarrow> error option \<times> 'c"
  sm_GetSeatID :: "string \<Rightarrow> 'c \<Rightarrow> int \<times> error option"
  sm_JoinPlayers :: "string list \<Rightarrow> 'c \<Rightarrow> error option \<times> 'c"
  sm_UpdatePlayerHasChips :: "string \<Rightarrow> bool \<Rightarrow> 'c \<Rightarrow> error option \<times> 'c"
  sm_RemoveSeats :: "string list \<Rightarrow> 'c \<Rightarrow> error option \<times> 'c"

record 'c SyncIface =
  rg_Stop :: "'c \<Rightarrow> 'c"
  rg_SetTimeoutInterval :: "int \<Rightarrow> 'c \<Rightarrow> 'c"
  rg_ResetParticipants :: "'c \<Rightarrow> 'c"
  rg_Add :: "int \<Rightarrow> bool \<Rightarrow> 'c \<Rightarrow> 'c"
  rg_Start :: "'c \<Rightarrow> 'c"
  rg_GetParticipantStates :: "'c \<Rightarrow> int \<Rightarrow> bool option"
  rg_Ready :: "int \<Rightarrow> 'c \<Rightarrow> 'c"
  NewOpenGameManager :: "'c \<Rightarrow> 'c"
  ogm_Setup :: "int \<Rightarrow> (string \<times> int) list \<Rightarrow> 'c \<Rightarrow> 'c"
  ogm_Ready :: "string \<Rightarrow> 'c \<Rightarrow> 'c"
  tb_NewTask :: "int \<Rightarrow> 'c \<Rightarrow> bool \<times> 'c"
  time_Now :: "'c \<Rightarrow> int"
  time_Sleep :: "int \<Rightarrow> 'c \<Rightarrow> 'c"

text \<open>
  Functions of the poker library on a hand state and on hand powers, and the JSON round
  trip behind \<open>Clone\<close>, which either fails with an error or yields a table equal to
  the one cloned (every field of \<open>Table\<close> is exported with a JSON tag).
\<close>

record LibIface =
  GetPlayer :: "GameState \<Rightarrow> int \<Rightarrow> GamePlayer option"
  HasPosition :: "GameState \<Rightarrow> int \<Rightarrow> string \<Rightarrow> bool"
  GameEventBySymbol :: "string \<Rightarrow> GameEvent option"
  GameEventSymbols :: "GameEvent \<Rightarrow> string"
  rank_GetWinners :: "(int \<times> int) list \<Rightarrow> int list"
  json_error :: "Table \<Rightarrow> error option"

record 'c tableEngine =
  options :: TableEngineOptions
  table :: Table
  isReleased :: bool
  emitted :: "event list"
  collab :: 'c

text \<open>
  \<open>updatePlayerPositions\<close> is a method of the engine declared outside the files at hand.
  It is handed the seat count and the player states of the cloned table, whose position
  tags it recomputes; it is a parameter that may read the engine.
\<close>

record 'c env =
  game_if :: "'c GameIface"
  sm_if :: "'c SeatManagerIface"
  sync_if :: "'c SyncIface"
  lib_if :: LibIface
  updatePlayerPositions ::
    "'c tableEngine \<Rightarrow> int \<Rightarrow> TablePlayerState list \<Rightarrow> TablePlayerState list"

section \<open>Table helpers\<close>

fun FindPlayerIdx_from :: "int \<Rightarrow> TablePlayerState list \<Rightarrow> string \<Rightarrow> int" where
  "FindPlayerIdx_from i [] playerID = UnsetValue"
| "FindPlayerIdx_from i (playerState # rest) playerID =
     (if PlayerID playerState = playerID then i else FindPlayerIdx_from (i + 1) rest playerID)"

definition FindPlayerIdx :: "Table \<Rightarrow> string \<Rightarrow> int" where
  "FindPlayerIdx t playerID = FindPlayerIdx_from 0 (PlayerStates (State t)) playerID"

text \<open>
  \<open>FindGamePlayerIdx\<close> reads \<open>PlayerStates[playerIdx]\<close> for each entry of
  \<open>GamePlayerIndexes\<close> in turn and panics at the first entry that is out of range.
\<close>

fun FindGamePlayerIdx_from ::
  "int \<Rightarrow> TablePlayerState list \<Rightarrow> int list \<Rightarrow> string \<Rightarrow> int res" where
  "FindGamePlayerIdx_from gamePlayerIdx players [] playerID = Ok UnsetValue"
| "FindGamePlayerIdx_from gamePlayerIdx players (playerIdx # rest) playerID =
     (case at_index players playerIdx of
        None \<Rightarrow> Panic
      | Some p \<Rightarrow>
          if PlayerID p = playerID then Ok gamePlayerIdx
          else FindGamePlayerIdx_from (gamePlayerIdx + 1) players rest playerID)"

definition FindGamePlayerIdx :: "Table \<Rightarrow> string \<Rightarrow> int res" where
  "FindGamePlayerIdx t playerID =
     FindGamePlayerIdx_from 0 (PlayerStates (State t)) (GamePlayerIndexes (State t)) playerID"

definition FindPlayerIndexFromGamePlayerIndex :: "Table \<Rightarrow> int \<Rightarrow> int" where
  "FindPlayerIndexFromGamePlayerIndex t gamePlayerIdx =
     (if gamePlayerIdx < 0 \<or> gamePlayerIdx \<ge> int (length (GamePlayerIndexes (State t)))
      then UnsetValue
      else GamePlayerIndexes (State t) ! nat gamePlayerIdx)"

definition PlayerSeatMap :: "Table \<Rightarrow> (string \<times> int) list" where
  "PlayerSeatMap t =
     fold (\<lambda>player m. AList.update (PlayerID player) (Seat player) m) (PlayerStates (State t)) []"

definition AlivePlayers :: "Table \<Rightarrow> TablePlayerState list" where
  "AlivePlayers t = filter (\<lambda>player. Bankroll player > 0) (PlayerStates (State t))"

definition Clone :: "LibIface \<Rightarrow> Table \<Rightarrow> error + Table" where
  "Clone lib t = (case json_error lib t of Some err \<Rightarrow> Inl err | None \<Rightarrow> Inr t)"

definition ShouldPause :: "Table \<Rightarrow> bool" where
  "ShouldPause t =
     (case BlindState (State t) of None \<Rightarrow> False | Some bs \<Rightarrow> Level bs = - 1)"

definition IsSet :: "TableBlindState option \<Rightarrow> bool" where
  "IsSet bs = (case bs of None \<Rightarrow> False | Some b \<Rightarrow> Level b \<noteq> 0 \<and> SB b > 0 \<and> BB b > 0)"

definition IsBreaking :: "TableBlindState option \<Rightarrow> bool" where
  "IsBreaking bs = (case bs of None \<Rightarrow> False | Some b \<Rightarrow> Level b = - 1)"

text \<open>
  Modelled from the spec: \<open>NewDefaultSeatMap\<close> is declared outside the files at hand.
  The spec describes the seat map as seat index to player index, \<open>-1\<close> for an empty
  seat.
\<close>

definition NewDefaultSeatMap :: "int \<Rightarrow> (int \<times> int) list" where
  "NewDefaultSeatMap seatCount = map (\<lambda>seatID. (seatID, UnsetValue)) [0..seatCount - 1]"

section \<open>Event emission\<close>

text \<open>
  Modelled from the spec: the emit functions are declared outside the files at hand. The
  spec has \<open>updateSerial\<close> bumped on every state-mutating emission and \<open>OnTableUpdated\<close>
  fired on every acknowledged state mutation: \<open>emitEvent\<close> increments \<open>UpdateSerial\<close> and
  fires \<open>OnTableUpdated\<close>. Each other emit function fires its callback of section 6 of
  the spec and changes nothing else.
\<close>

definition emitEvent :: "string \<Rightarrow> string \<Rightarrow> 'c tableEngine \<Rightarrow> 'c tableEngine" where
  "emitEvent eventName playerID te =
     te\<lparr> table := (table te)\<lparr> UpdateSerial := int64_wrap (UpdateSerial (table te) + 1) \<rparr>,
         emitted := emitted te @ [TableUpdated eventName playerID] \<rparr>"

definition emitErrorEvent :: "string \<Rightarrow> string \<Rightarrow> error \<Rightarrow> 'c tableEngine \<Rightarrow> 'c tableEngine" where
  "emitErrorEvent eventName playerID err te =
     te\<lparr> emitted := emitted te @ [TableErrorUpdated eventName playerID err] \<rparr>"

definition emitTableStateEvent :: "string \<Rightarrow> 'c tableEngine \<Rightarrow> 'c tableEngine" where
  "emitTableStateEvent ev te = te\<lparr> emitted := emitted te @ [TableStateUpdated ev] \<rparr>"

definition emitTablePlayerStateEvent :: "TablePlayerState \<Rightarrow> 'c tableEngine \<Rightarrow> 'c tableEngine" where
  "emitTablePlayerStateEvent playerState te =
     te\<lparr> emitted := emitted te @ [TablePlayerStateUpdated playerState] \<rparr>"

definition emitTablePlayerReservedEvent ::
  "TablePlayerState \<Rightarrow> 'c tableEngine \<Rightarrow> 'c tableEngine" where
  "emitTablePlayerReservedEvent playerState te =
     te\<lparr> emitted := emitted te @ [TablePlayerReserved playerState] \<rparr>"

definition emitGamePlayerActionEvent ::
  "TablePlayerGameAction \<Rightarrow> 'c tableEngine \<Rightarrow> 'c tableEngine" where
  "emitGamePlayerActionEvent gameAction te =
     te\<lparr> emitted := emitted te @ [GamePlayerActionUpdated gameAction] \<rparr>"

definition emitReadyOpenFirstTableGame ::
  "int \<Rightarrow> TablePlayerState list \<Rightarrow> 'c tableEngine \<Rightarrow> 'c tableEngine" where
  "emitReadyOpenFirstTableGame gameCount playerStates te =
     te\<lparr> emitted := emitted te @ [ReadyOpenFirstTableGame gameCount playerStates] \<rparr>"

definition emitAutoGameOpenEnd :: "string \<Rightarrow> string \<Rightarrow> 'c tableEngine \<Rightarrow> 'c tableEngine" where
  "emitAutoGameOpenEnd competitionID tableID te =
     te\<lparr> emitted := emitted te @ [AutoGameOpenEnd competitionID tableID] \<rparr>"

section \<open>State updates through pointers\<close>

text \<open>
  \<open>PlayerStates\<close> is a slice of pointers; a player state reached through
  \<open>PlayerStates[i]\<close> is updated in place. The model rewrites entry \<open>i\<close> of the list.
\<close>

definition set_state :: "(TableState \<Rightarrow> TableState) \<Rightarrow> 'c tableEngine \<Rightarrow> 'c tableEngine" where
  "set_state f te = te\<lparr> table := (table te)\<lparr> State := f (State (table te)) \<rparr> \<rparr>"

definition set_players :: "TablePlayerState list \<Rightarrow> 'c tableEngine \<Rightarrow> 'c tableEngine" where
  "set_players ps te = set_state (\<lambda>s. s\<lparr> PlayerStates := ps \<rparr>) te"

definition modify_player ::
  "nat \<Rightarrow> (TablePlayerState \<Rightarrow> TablePlayerState) \<Rightarrow> 'c tableEngine \<Rightarrow> 'c tableEngine" where
  "modify_player i f te =
     (let ps = PlayerStates (State (table te)) in set_players (ps[i := f (ps ! i)]) te)"

definition modify_stats ::
  "nat \<Rightarrow> (TablePlayerGameStatistics \<Rightarrow> TablePlayerGameStatistics) \<Rightarrow> 'c tableEngine
     \<Rightarrow> 'c tableEngine" where
  "modify_stats i f te = modify_player i (\<lambda>p. p\<lparr> GameStatistics := f (GameStatistics p) \<rparr>) te"

definition stats_of :: "'c tableEngine \<Rightarrow> nat \<Rightarrow> TablePlayerGameStatistics" where
  "stats_of te i = GameStatistics (PlayerStates (State (table te)) ! i)"

section \<open>Internal helpers of the engine\<close>

definition validateGameMove :: "'c tableEngine \<Rightarrow> int \<Rightarrow> error option" where
  "validateGameMove te gamePlayerIdx =
     (if Status (State (table te)) \<noteq> TableStateStatus_TableGamePlaying
      then Some ErrTablePlayerInvalidGameAction
      else if gamePlayerIdx = UnsetValue then Some ErrTablePlayerNotFound
      else None)"

definition createPlayerGameAction ::
  "'c env \<Rightarrow> 'c tableEngine \<Rightarrow> string \<Rightarrow> int \<Rightarrow> string \<Rightarrow> int \<Rightarrow> GamePlayer option
     \<Rightarrow> TablePlayerGameAction res" where
  "createPlayerGameAction env te playerID playerIdx action chips player =
     (let t = table te;
          pga = \<lparr> pga_CompetitionID = CompetitionID (Meta t),
                  pga_TableID = ID t,
                  pga_GameID = [],
                  pga_GameCount = GameCount (State t),
                  pga_UpdateAt = time_Now (sync_if env) (collab te),
                  pga_PlayerID = playerID,
                  pga_Action = action,
                  pga_Round = [],
                  pga_Chips = chips,
                  pga_Seat = 0,
                  pga_Positions = [],
                  pga_Bankroll = 0,
                  pga_InitialStackSize = 0,
                  pga_StackSize = 0,
                  pga_Pot = 0,
                  pga_Wager = 0 \<rparr>;
          pga = (case GameState (State t) of
                   None \<Rightarrow> pga
                 | Some gs \<Rightarrow> pga\<lparr> pga_GameID := gs_GameID gs, pga_Round := gs_Round (gs_Status gs) \<rparr>);
          fill = (\<lambda>pga. case player of
                   None \<Rightarrow> pga
                 | Some p \<Rightarrow> pga\<lparr> pga_Bankroll := gp_Bankroll p,
                                  pga_InitialStackSize := gp_InitialStackSize p,
                                  pga_StackSize := gp_StackSize p,
                                  pga_Pot := gp_Pot p,
                                  pga_Wager := gp_Wager p \<rparr>)
      in if playerIdx < int (length (PlayerStates (State t)))
         then (case at_index (PlayerStates (State t)) playerIdx of
                 None \<Rightarrow> Panic
               | Some ps \<Rightarrow> Ok (fill (pga\<lparr> pga_Seat := Seat ps, pga_Positions := Positions ps \<rparr>)))
         else Ok (fill pga))"

text \<open>
  \<open>refreshThreeBet\<close> receives a pointer to a player state and a player index. The pointer
  is the position of the state it points to in \<open>PlayerStates\<close>; both callers pass
  \<open>PlayerStates[playerIdx]\<close> and \<open>playerIdx\<close>.
\<close>

definition set_Is3B :: "bool \<Rightarrow> TablePlayerState \<Rightarrow> TablePlayerState" where
  "set_Is3B b p = p\<lparr> GameStatistics := (GameStatistics p)\<lparr> Is3B := b \<rparr> \<rparr>"

definition refreshThreeBet :: "nat \<Rightarrow> int \<Rightarrow> 'c tableEngine \<Rightarrow> 'c tableEngine" where
  "refreshThreeBet playerState playerIdx te =
     (let ps = PlayerStates (State (table te));
          hasThreeBet = list_ex (\<lambda>p. Is3B (GameStatistics p)) ps;
          ps = (if hasThreeBet then map (set_Is3B False) ps else ps);
          ps = (if Is3BChance (GameStatistics (ps ! playerState))
                then map (\<lambda>(i, p). set_Is3B (int i = playerIdx) p) (enumerate 0 ps)
                else ps)
      in set_players ps te)"

section \<open>Player game actions\<close>

text \<open>
  The nine game actions start alike: resolve the game-player index, validate the move,
  resolve the table-player index. \<open>resolveGameMove\<close> is that common start; it yields the
  error to return, or both indexes.
\<close>

definition resolveGameMove :: "'c tableEngine \<Rightarrow> string \<Rightarrow> (error + int \<times> int) res" where
  "resolveGameMove te playerID =
     bind_res (FindGamePlayerIdx (table te) playerID) (\<lambda>gamePlayerIdx.
       case validateGameMove te gamePlayerIdx of
         Some err \<Rightarrow> Ok (Inl err)
       | None \<Rightarrow>
           (let playerIdx = FindPlayerIndexFromGamePlayerIndex (table te) gamePlayerIdx
            in if playerIdx = UnsetValue then Ok (Inl ErrGamePlayerNotFound)
               else Ok (Inr (gamePlayerIdx, playerIdx))))"

text \<open>
  After a move that the hand driver accepted: build the action record from the player of
  the returned hand state (a nil hand state panics), store it as the last action and,
  for wagers, emit it.
\<close>

definition recordGameAction ::
  "'c env \<Rightarrow> bool \<Rightarrow> string \<Rightarrow> int \<Rightarrow> int \<Rightarrow> string \<Rightarrow> int \<Rightarrow> GameState option
     \<Rightarrow> 'c tableEngine \<Rightarrow> 'c tableEngine res" where
  "recordGameAction env emit playerID playerIdx gamePlayerIdx action chips gs te =
     (case gs of
        None \<Rightarrow> Panic
      | Some g \<Rightarrow>
          bind_res (createPlayerGameAction env te playerID playerIdx action chips
                      (GetPlayer (lib_if env) g gamePlayerIdx)) (\<lambda>pga.
            let te = set_state (\<lambda>s. s\<lparr> LastPlayerGameAction := Some pga \<rparr>) te
            in Ok (if emit then emitGamePlayerActionEvent pga te else te)))"

text \<open>\<open>playerState := te.table.State.PlayerStates[playerIdx]\<close>, as a position.\<close>

definition playerStateAt :: "'c tableEngine \<Rightarrow> int \<Rightarrow> nat res" where
  "playerStateAt te playerIdx =
     (case at_index (PlayerStates (State (table te))) playerIdx of
        None \<Rightarrow> Panic
      | Some p \<Rightarrow> Ok (nat playerIdx))"

text \<open>\<open>te.game.GetGameState().Status.CurrentRaiser == gamePlayerIdx\<close>\<close>

definition isCurrentRaiser :: "'c env \<Rightarrow> 'c tableEngine \<Rightarrow> int \<Rightarrow> bool res" where
  "isCurrentRaiser env te gamePlayerIdx =
     (case game_GetGameState (game_if env) (collab te) of
        None \<Rightarrow> Panic
      | Some gs \<Rightarrow> Ok (gs_CurrentRaiser (gs_Status gs) = gamePlayerIdx))"

definition PlayerReady :: "'c env \<Rightarrow> 'c tableEngine \<Rightarrow> string \<Rightarrow> (error option \<times> 'c tableEngine) res" where
  "PlayerReady env te playerID =
     bind_res (resolveGameMove te playerID) (\<lambda>r.
       case r of
         Inl err \<Rightarrow> Ok (Some err, te)
       | Inr (gamePlayerIdx, playerIdx) \<Rightarrow>
           (case game_Ready (game_if env) gamePlayerIdx (collab te) of
              ((gs, Some err), c) \<Rightarrow> Ok (Some err, te\<lparr> collab := c \<rparr>)
            | ((gs, None), c) \<Rightarrow>
                bind_res (recordGameAction env False playerID playerIdx gamePlayerIdx ''ready'' 0 gs
                            (te\<lparr> collab := c \<rparr>)) (\<lambda>te. Ok (None, te))))"

definition PlayerPay ::
  "'c env \<Rightarrow> 'c tableEngine \<Rightarrow> string \<Rightarrow> int \<Rightarrow> (error option \<times> 'c tableEngine) res" where
  "PlayerPay env te playerID chips =
     bind_res (resolveGameMove te playerID) (\<lambda>r.
       case r of
         Inl err \<Rightarrow> Ok (Some err, te)
       | Inr (gamePlayerIdx, playerIdx) \<Rightarrow>
           (case game_Pay (game_if env) gamePlayerIdx chips (collab te) of
              ((gs, Some err), c) \<Rightarrow> Ok (Some err, te\<lparr> collab := c \<rparr>)
            | ((gs, None), c) \<Rightarrow>
                bind_res (recordGameAction env False playerID playerIdx gamePlayerIdx ''pay'' chips gs
                            (te\<lparr> collab := c \<rparr>)) (\<lambda>te. Ok (None, te))))"

definition PlayerBet ::
  "'c env \<Rightarrow> 'c tableEngine \<Rightarrow> string \<Rightarrow> int \<Rightarrow> (error option \<times> 'c tableEngine) res" where
  "PlayerBet env te playerID chips =
     bind_res (resolveGameMove te playerID) (\<lambda>r.
       case r of
         Inl err \<Rightarrow> Ok (Some err, te)
       | Inr (gamePlayerIdx, playerIdx) \<Rightarrow>
           (case game_Bet (game_if env) gamePlayerIdx chips (collab te) of
              ((gs, Some err), c) \<Rightarrow> Ok (Some err, te\<lparr> collab := c \<rparr>)
            | ((gs, None), c) \<Rightarrow>
                bind_res (recordGameAction env True playerID playerIdx gamePlayerIdx
                            WagerAction_Bet chips gs (te\<lparr> collab := c \<rparr>)) (\<lambda>te.
                bind_res (playerStateAt te playerIdx) (\<lambda>playerState.
                bind_res (isCurrentRaiser env te gamePlayerIdx) (\<lambda>raiser.
                  let te = modify_stats playerState (\<lambda>s. s\<lparr> ActionTimes := ActionTimes s + 1 \<rparr>) te;
                      te = (if raiser
                            then modify_stats playerState (\<lambda>s. s\<lparr> RaiseTimes := RaiseTimes s + 1 \<rparr>) te
                            else te);
                      te = (if IsVPIPChance (stats_of te playerState)
                            then modify_stats playerState (\<lambda>s. s\<lparr> IsVPIP := True \<rparr>) te else te);
                      te = (if IsCBetChance (stats_of te playerState)
                            then modify_stats playerState (\<lambda>s. s\<lparr> IsCBet := True \<rparr>) te else te)
                  in Ok (None, te))))))"

definition PlayerRaise ::
  "'c env \<Rightarrow> 'c tableEngine \<Rightarrow> string \<Rightarrow> int \<Rightarrow> (error option \<times> 'c tableEngine) res" where
  "PlayerRaise env te playerID chipLevel =
     bind_res (resolveGameMove te playerID) (\<lambda>r.
       case r of
         Inl err \<Rightarrow> Ok (Some err, te)
       | Inr (gamePlayerIdx, playerIdx) \<Rightarrow>
           (case game_Raise (game_if env) gamePlayerIdx chipLevel (collab te) of
              ((gs, Some err), c) \<Rightarrow> Ok (Some err, te\<lparr> collab := c \<rparr>)
            | ((gs, None), c) \<Rightarrow>
                bind_res (playerStateAt (te\<lparr> collab := c \<rparr>) playerIdx) (\<lambda>playerState.
                bind_res (recordGameAction env True playerID playerIdx gamePlayerIdx
                            WagerAction_Raise chipLevel gs (te\<lparr> collab := c \<rparr>)) (\<lambda>te.
                  let te = modify_stats playerState (\<lambda>s. s\<lparr> ActionTimes := ActionTimes s + 1 \<rparr>) te;
                      te = modify_stats playerState (\<lambda>s. s\<lparr> RaiseTimes := RaiseTimes s + 1 \<rparr>) te;
                      te = (if IsVPIPChance (stats_of te playerState)
                            then modify_stats playerState (\<lambda>s. s\<lparr> IsVPIP := True \<rparr>) te else te);
                      te = (if IsPFRChance (stats_of te playerState)
                            then modify_stats playerState (\<lambda>s. s\<lparr> IsPFR := True \<rparr>) te else te);
                      te = (if IsATSChance (stats_of te playerState)
                            then modify_stats playerState (\<lambda>s. s\<lparr> IsATS := True \<rparr>) te else te);
                      te = refreshThreeBet playerState playerIdx te;
                      te = (if IsCheckRaiseChance (stats_of te playerState)
                            then modify_stats playerState (\<lambda>s. s\<lparr> IsCheckRaise := True \<rparr>) te else te);
                      te = (if IsCBetChance (stats_of te playerState)
                            then modify_stats playerState (\<lambda>s. s\<lparr> IsCBet := True \<rparr>) te else te)
                  in Ok (None, te)))))"

text \<open>
  \<open>PlayerCall\<close> and \<open>PlayerAllin\<close> compute the wager to report from the table's hand
  state before the move; \<open>GetPlayer\<close> yielding nil there is a nil dereference.
\<close>

definition callWager :: "'c env \<Rightarrow> 'c tableEngine \<Rightarrow> int \<Rightarrow> int res" where
  "callWager env te gamePlayerIdx =
     (case GameState (State (table te)) of
        None \<Rightarrow> Ok 0
      | Some gs \<Rightarrow>
          if gamePlayerIdx < int (length (gs_Players gs))
          then (case GetPlayer (lib_if env) gs gamePlayerIdx of
                  None \<Rightarrow> Panic
                | Some p \<Rightarrow> Ok (gs_CurrentWager (gs_Status gs) - gp_Wager p))
          else Ok 0)"

definition allinWager :: "'c env \<Rightarrow> 'c tableEngine \<Rightarrow> int \<Rightarrow> int res" where
  "allinWager env te gamePlayerIdx =
     (case GameState (State (table te)) of
        None \<Rightarrow> Ok 0
      | Some gs \<Rightarrow>
          if gamePlayerIdx < int (length (gs_Players gs))
          then (case GetPlayer (lib_if env) gs gamePlayerIdx of
                  None \<Rightarrow> Panic
                | Some p \<Rightarrow> Ok (gp_StackSize p))
          else Ok 0)"

definition PlayerCall :: "'c env \<Rightarrow> 'c tableEngine \<Rightarrow> string \<Rightarrow> (error option \<times> 'c tableEngine) res" where
  "PlayerCall env te playerID =
     bind_res (resolveGameMove te playerID) (\<lambda>r.
       case r of
         Inl err \<Rightarrow> Ok (Some err, te)
       | Inr (gamePlayerIdx, playerIdx) \<Rightarrow>
           bind_res (callWager env te gamePlayerIdx) (\<lambda>wager.
             case game_Call (game_if env) gamePlayerIdx (collab te) of
               ((gs, Some err), c) \<Rightarrow> Ok (Some err, te\<lparr> collab := c \<rparr>)
             | ((gs, None), c) \<Rightarrow>
                 bind_res (recordGameAction env True playerID playerIdx gamePlayerIdx
                             WagerAction_Call wager gs (te\<lparr> collab := c \<rparr>)) (\<lambda>te.
                 bind_res (playerStateAt te playerIdx) (\<lambda>playerState.
                   let te = modify_stats playerState (\<lambda>s. s\<lparr> ActionTimes := ActionTimes s + 1 \<rparr>) te;
                       te = modify_stats playerState (\<lambda>s. s\<lparr> CallTimes := CallTimes s + 1 \<rparr>) te;
                       te = (if IsVPIPChance (stats_of te playerState)
                             then modify_stats playerState (\<lambda>s. s\<lparr> IsVPIP := True \<rparr>) te else te)
                   in Ok (None, te)))))"

definition PlayerAllin :: "'c env \<Rightarrow> 'c tableEngine \<Rightarrow> string \<Rightarrow> (error option \<times> 'c tableEngine) res" where
  "PlayerAllin env te playerID =
     bind_res (resolveGameMove te playerID) (\<lambda>r.
       case r of
         Inl err \<Rightarrow> Ok (Some err, te)
       | Inr (gamePlayerIdx, playerIdx) \<Rightarrow>
           bind_res (allinWager env te gamePlayerIdx) (\<lambda>wager.
             case game_Allin (game_if env) gamePlayerIdx (collab te) of
               ((gs, Some err), c) \<Rightarrow> Ok (Some err, te\<lparr> collab := c \<rparr>)
             | ((gs, None), c) \<Rightarrow>
                 bind_res (recordGameAction env True playerID playerIdx gamePlayerIdx
                             WagerAction_AllIn wager gs (te\<lparr> collab := c \<rparr>)) (\<lambda>te.
                 bind_res (playerStateAt te playerIdx) (\<lambda>playerState.
                 bind_res (isCurrentRaiser env te gamePlayerIdx) (\<lambda>raiser.
                   let te = modify_stats playerState (\<lambda>s. s\<lparr> ActionTimes := ActionTimes s + 1 \<rparr>) te;
                       te = (if raiser
                             then (let te = modify_stats playerState
                                              (\<lambda>s. s\<lparr> RaiseTimes := RaiseTimes s + 1 \<rparr>) te;
                                       te = (if IsPFRChance (stats_of te playerState)
                                             then modify_stats playerState (\<lambda>s. s\<lparr> IsPFR := True \<rparr>) te
                                             else te);
                                       te = (if IsATSChance (stats_of te playerState)
                                             then modify_stats playerState (\<lambda>s. s\<lparr> IsATS := True \<rparr>) te
                                             else te);
                                       te = refreshThreeBet playerState playerIdx te
                                   in if IsCheckRaiseChance (stats_of te playerState)
                                      then modify_stats playerState (\<lambda>s. s\<lparr> IsCheckRaise := True \<rparr>) te
                                      else te)
                             else te);
                       te = (if IsVPIPChance (stats_of te playerState)
                             then modify_stats playerState (\<lambda>s. s\<lparr> IsVPIP := True \<rparr>) te else te);
                       te = (if IsCBetChance (stats_of te playerState)
                             then modify_stats playerState (\<lambda>s. s\<lparr> IsCBet := True \<rparr>) te else te)
                   in Ok (None, te))))))"

definition PlayerCheck :: "'c env \<Rightarrow> 'c tableEngine \<Rightarrow> string \<Rightarrow> (error option \<times> 'c tableEngine) res" where
  "PlayerCheck env te playerID =
     bind_res (resolveGameMove te playerID) (\<lambda>r.
       case r of
         Inl err \<Rightarrow> Ok (Some err, te)
       | Inr (gamePlayerIdx, playerIdx) \<Rightarrow>
           (case game_Check (game_if env) gamePlayerIdx (collab te) of
              ((gs, Some err), c) \<Rightarrow> Ok (Some err, te\<lparr> collab := c \<rparr>)
            | ((gs, None), c) \<Rightarrow>
                bind_res (recordGameAction env True playerID playerIdx gamePlayerIdx
                            WagerAction_Check 0 gs (te\<lparr> collab := c \<rparr>)) (\<lambda>te.
                bind_res (playerStateAt te playerIdx) (\<lambda>playerState.
                  let te = modify_stats playerState (\<lambda>s. s\<lparr> ActionTimes := ActionTimes s + 1 \<rparr>) te;
                      te = modify_stats playerState (\<lambda>s. s\<lparr> CheckTimes := CheckTimes s + 1 \<rparr>) te
                  in Ok (None, te)))))"

text \<open>\<open>te.game.GetGameState().Status.Round\<close>\<close>

definition currentGameRound :: "'c env \<Rightarrow> 'c tableEngine \<Rightarrow> string res" where
  "currentGameRound env te =
     (case game_GetGameState (game_if env) (collab te) of
        None \<Rightarrow> Panic
      | Some gs \<Rightarrow> Ok (gs_Round (gs_Status gs)))"

definition PlayerFold :: "'c env \<Rightarrow> 'c tableEngine \<Rightarrow> string \<Rightarrow> (error option \<times> 'c tableEngine) res" where
  "PlayerFold env te playerID =
     bind_res (resolveGameMove te playerID) (\<lambda>r.
       case r of
         Inl err \<Rightarrow> Ok (Some err, te)
       | Inr (gamePlayerIdx, playerIdx) \<Rightarrow>
           (case game_Fold (game_if env) gamePlayerIdx (collab te) of
              ((gs, Some err), c) \<Rightarrow> Ok (Some err, te\<lparr> collab := c \<rparr>)
            | ((gs, None), c) \<Rightarrow>
                bind_res (recordGameAction env True playerID playerIdx gamePlayerIdx
                            WagerAction_Fold 0 gs (te\<lparr> collab := c \<rparr>)) (\<lambda>te.
                bind_res (playerStateAt te playerIdx) (\<lambda>playerState.
                bind_res (currentGameRound env te) (\<lambda>round.
                  let te = modify_stats playerState (\<lambda>s. s\<lparr> ActionTimes := ActionTimes s + 1 \<rparr>) te;
                      te = modify_stats playerState (\<lambda>s. s\<lparr> IsFold := True \<rparr>) te;
                      te = modify_stats playerState (\<lambda>s. s\<lparr> FoldRound := round \<rparr>) te;
                      te = (if IsFt3BChance (stats_of te playerState)
                            then modify_stats playerState (\<lambda>s. s\<lparr> IsFt3B := True \<rparr>) te else te);
                      te = (if IsFt3BChance (stats_of te playerState)
                            then modify_stats playerState (\<lambda>s. s\<lparr> IsFtCB := True \<rparr>) te else te)
                  in Ok (None, te))))))"

definition PlayerPass :: "'c env \<Rightarrow> 'c tableEngine \<Rightarrow> string \<Rightarrow> (error option \<times> 'c tableEngine) res" where
  "PlayerPass env te playerID =
     bind_res (resolveGameMove te playerID) (\<lambda>r.
       case r of
         Inl err \<Rightarrow> Ok (Some err, te)
       | Inr (gamePlayerIdx, playerIdx) \<Rightarrow>
           (case game_Pass (game_if env) gamePlayerIdx (collab te) of
              ((gs, Some err), c) \<Rightarrow> Ok (Some err, te\<lparr> collab := c \<rparr>)
            | ((gs, None), c) \<Rightarrow>
                bind_res (recordGameAction env True playerID playerIdx gamePlayerIdx ''pass'' 0 gs
                            (te\<lparr> collab := c \<rparr>)) (\<lambda>te. Ok (None, te))))"

section \<open>Seats and game-player indexes\<close>

text \<open>
  The loops of \<open>calcGamePlayerIndexes\<close> run over a range of the counter \<open>i\<close>; each
  function below takes the values of \<open>i\<close> in the order of the loop. Reading
  \<open>players[playerIdx]\<close> out of range panics.
\<close>

fun shortDeckWalk :: "TablePlayerState list \<Rightarrow> int \<Rightarrow> int list \<Rightarrow> int list \<Rightarrow> int list res" where
  "shortDeckWalk players playerLen [] gamePlayerIndexes = Ok gamePlayerIndexes"
| "shortDeckWalk players playerLen (i # rest) gamePlayerIndexes =
     (let playerIdx = go_rem i playerLen
      in case at_index players playerIdx of
           None \<Rightarrow> Panic
         | Some p \<Rightarrow>
             shortDeckWalk players playerLen rest
               (if IsParticipated p then gamePlayerIndexes @ [playerIdx] else gamePlayerIndexes))"

fun seatWalk ::
  "(int \<times> int) list \<Rightarrow> TablePlayerState list \<Rightarrow> int list \<Rightarrow> int list \<Rightarrow> int list res" where
  "seatWalk seatMap players [] gamePlayerIndexes = Ok gamePlayerIndexes"
| "seatWalk seatMap players (i # rest) gamePlayerIndexes =
     (let seatID = go_rem i (int (length seatMap));
          playerIdx = seat_lookup seatMap seatID
      in if playerIdx \<ge> 0
         then (case at_index players playerIdx of
                 None \<Rightarrow> Panic
               | Some p \<Rightarrow>
                   seatWalk seatMap players rest
                     (if IsParticipated p then gamePlayerIndexes @ [playerIdx]
                      else gamePlayerIndexes))
         else seatWalk seatMap players rest gamePlayerIndexes)"

fun findFakeDealer :: "(int \<Rightarrow> bool) \<Rightarrow> int \<Rightarrow> int list \<Rightarrow> int" where
  "findFakeDealer active maxSeatCount [] = UnsetValue"
| "findFakeDealer active maxSeatCount (i # rest) =
     (let seatID = go_rem i maxSeatCount
      in if active seatID then seatID else findFakeDealer active maxSeatCount rest)"

definition findDealerAndSB :: "TablePlayerState list \<Rightarrow> int \<Rightarrow> int \<Rightarrow> int \<times> int" where
  "findDealerAndSB players currentDealerSeatID currentSBSeatID =
     fold (\<lambda>(idx, p) (dealerPlayerIdx, sbPlayerIdx).
             if \<not> IsParticipated p then (dealerPlayerIdx, sbPlayerIdx)
             else (if Seat p = currentDealerSeatID then int idx else dealerPlayerIdx,
                   if Seat p = currentSBSeatID then int idx else sbPlayerIdx))
          (enumerate 0 players) (UnsetValue, UnsetValue)"

definition calcGamePlayerIndexes ::
  "'c env \<Rightarrow> 'c tableEngine \<Rightarrow> string \<Rightarrow> int \<Rightarrow> int \<Rightarrow> int \<Rightarrow> int \<Rightarrow> (int \<times> int) list
     \<Rightarrow> TablePlayerState list \<Rightarrow> int list res" where
  "calcGamePlayerIndexes env te rule maxSeatCount currentDealerSeatID currentSBSeatID
       currentBBSeatID seatMap players =
     (let playerLen = int (length players)
      in if rule = CompetitionRule_ShortDeck
         then (let dealerPlayerIdx = seat_lookup seatMap currentDealerSeatID
               in shortDeckWalk players playerLen
                    [dealerPlayerIdx .. playerLen + dealerPlayerIdx - 1] [])
         else (case findDealerAndSB players currentDealerSeatID currentSBSeatID of
                 (dealerPlayerIdx, sbPlayerIdx) \<Rightarrow>
                   if dealerPlayerIdx = UnsetValue
                   then (let startSeatID = (if sbPlayerIdx = UnsetValue then currentBBSeatID
                                            else currentSBSeatID);
                             fakeDealerSeatID =
                               findFakeDealer (sm_SeatActive (sm_if env) (collab te)) maxSeatCount
                                 (rev [startSeatID .. startSeatID + maxSeatCount - 1])
                         in seatWalk seatMap players
                              [fakeDealerSeatID .. int (length seatMap) + fakeDealerSeatID - 1] [])
                   else seatWalk seatMap players
                          [currentDealerSeatID .. int (length seatMap) + currentDealerSeatID - 1]
                          []))"

definition refreshNextBBOrderPlayerIDs ::
  "int \<Rightarrow> int \<Rightarrow> TablePlayerState list \<Rightarrow> (int \<times> int) list \<Rightarrow> string list" where
  "refreshNextBBOrderPlayerIDs currentBBSeatID tableMaxSeatCount players seatMap =
     concat (map (\<lambda>i. let newBBSeatID = go_rem i tableMaxSeatCount
                       in case map_of seatMap newBBSeatID of
                            None \<Rightarrow> []
                          | Some playerIdx \<Rightarrow>
                              if playerIdx \<ge> 0 \<and> playerIdx < int (length players)
                                 \<and> Bankroll (players ! nat playerIdx) > 0
                              then [PlayerID (players ! nat playerIdx)] else [])
                 [currentBBSeatID + 1 .. tableMaxSeatCount + currentBBSeatID])"

section \<open>Opening a hand\<close>

fun refreshParticipated ::
  "'c env \<Rightarrow> 'c \<Rightarrow> TablePlayerState list \<Rightarrow> error + TablePlayerState list" where
  "refreshParticipated env c [] = Inr []"
| "refreshParticipated env c (player # rest) =
     (case sm_IsPlayerActive (sm_if env) (PlayerID player) c of
        (active, Some err) \<Rightarrow> Inl err
      | (active, None) \<Rightarrow>
          (case refreshParticipated env c rest of
             Inl err \<Rightarrow> Inl err
           | Inr rest' \<Rightarrow> Inr (player\<lparr> IsParticipated := active \<rparr> # rest')))"

text \<open>
  \<open>openGame\<close> returns a table and an error. The seat manager is rotated in place, so
  its new state is returned with the engine also when a later step fails.
\<close>

definition openGame ::
  "'c env \<Rightarrow> 'c tableEngine \<Rightarrow> Table \<Rightarrow> ((Table \<times> error option) \<times> 'c tableEngine) res" where
  "openGame env te oldTable =
     (if \<not> IsSet (BlindState (State oldTable))
      then Ok ((oldTable, Some ErrTableOpenGameFailed), te)
      else if IsBreaking (BlindState (State oldTable))
      then Ok ((oldTable, Some ErrTableOpenGameFailedInBlindBreakingLevel), te)
      else case Clone (lib_if env) oldTable of
        Inl err \<Rightarrow> Ok ((oldTable, Some err), te)
      | Inr cloneTable \<Rightarrow>
          (let cloneTable = cloneTable\<lparr> State := (State cloneTable)
                              \<lparr> Status := TableStateStatus_TableGameOpened \<rparr> \<rparr>
           in case (if \<not> sm_IsInitPositions (sm_if env) (collab te)
                    then sm_InitPositions (sm_if env) True (collab te)
                    else sm_RotatePositions (sm_if env) (collab te)) of
                (Some err, c) \<Rightarrow> Ok ((oldTable, Some ErrTableOpenGameFailed), te\<lparr> collab := c \<rparr>)
              | (None, c) \<Rightarrow>
                  (let te = te\<lparr> collab := c \<rparr>
                   in case refreshParticipated env c (PlayerStates (State cloneTable)) of
                        Inl err \<Rightarrow> Ok ((oldTable, Some err), te)
                      | Inr players \<Rightarrow>
                          bind_res (calcGamePlayerIndexes env te (Rule (Meta cloneTable))
                                      (TableMaxSeatCount (Meta cloneTable))
                                      (sm_CurrentDealerSeatID (sm_if env) c)
                                      (sm_CurrentSBSeatID (sm_if env) c)
                                      (sm_CurrentBBSeatID (sm_if env) c)
                                      (SeatMap (State cloneTable)) players)
                            (\<lambda>gamePlayerIndexes.
                               let players = updatePlayerPositions env te
                                               (TableMaxSeatCount (Meta cloneTable)) players;
                                   cloneTable = cloneTable\<lparr> State := (State cloneTable)
                                     \<lparr> PlayerStates := players,
                                       GamePlayerIndexes := gamePlayerIndexes,
                                       GameCount := int64_wrap (GameCount (State cloneTable) + 1),
                                       CurrentDealerSeat := sm_CurrentDealerSeatID (sm_if env) c,
                                       CurrentSBSeat := sm_CurrentSBSeatID (sm_if env) c,
                                       CurrentBBSeat := sm_CurrentBBSeatID (sm_if env) c \<rparr> \<rparr>
                               in Ok ((cloneTable, None), te)))))"

section \<open>Starting a hand\<close>

fun playerSettingsOf :: "TablePlayerState list \<Rightarrow> int list \<Rightarrow> PlayerSetting list res" where
  "playerSettingsOf players [] = Ok []"
| "playerSettingsOf players (playerIdx # rest) =
     (case at_index players playerIdx of
        None \<Rightarrow> Panic
      | Some player \<Rightarrow>
          (case playerSettingsOf players rest of
             Panic \<Rightarrow> Panic
           | Ok settings \<Rightarrow>
               Ok (\<lparr> ps_Bankroll = Bankroll player, ps_Positions = Positions player \<rparr> # settings)))"

text \<open>
  \<open>startGame\<close> reads the blind through its pointer (nil panics) and the first player
  setting (an empty list panics). The callbacks it registers on the hand driver are the
  transitions \<open>updateGameState\<close> and the like further down.
\<close>

definition startGame :: "'c env \<Rightarrow> 'c tableEngine \<Rightarrow> (error option \<times> 'c tableEngine) res" where
  "startGame env te =
     (let rule = Rule (Meta (table te))
      in case BlindState (State (table te)) of
           None \<Rightarrow> Panic
         | Some blind \<Rightarrow>
             bind_res (playerSettingsOf (PlayerStates (State (table te)))
                         (GamePlayerIndexes (State (table te)))) (\<lambda>playerSettings.
               case playerSettings of
                 [] \<Rightarrow> Panic
               | first # others \<Rightarrow>
                   (let first = (if Position_Dealer \<in> set (ps_Positions first) then first
                                 else first\<lparr> ps_Positions := ps_Positions first @ [Position_Dealer] \<rparr>);
                        opts = \<lparr> opt_Preset = (if rule = CompetitionRule_ShortDeck then ShortDeck
                                               else StandardDeck),
                                 opt_HoleCards = (if rule = CompetitionRule_ShortDeck then None
                                                  else if rule = CompetitionRule_Omaha
                                                  then Some (4, 2) else None),
                                 opt_Ante = Ante blind,
                                 opt_BlindDealer = Dealer blind,
                                 opt_BlindSB = SB blind,
                                 opt_BlindBB = BB blind,
                                 opt_Players = first # others \<rparr>
                    in case game_Start (game_if env) (NewGame (game_if env) opts (collab te)) of
                         ((gs, Some err), c) \<Rightarrow> Ok (Some err, te\<lparr> collab := c \<rparr>)
                       | ((gs, None), c) \<Rightarrow>
                           Ok (None,
                               set_state (\<lambda>s. s\<lparr> Status := TableStateStatus_TableGamePlaying,
                                                GameBlindState :=
                                                  Some \<lparr> Level = Level blind, Ante = Ante blind,
                                                         Dealer = Dealer blind, SB = SB blind,
                                                         BB = BB blind, EndTime = 0 \<rparr> \<rparr>)
                                 (te\<lparr> collab := c \<rparr>)))))"

section \<open>tableGameOpen and its retries\<close>

text \<open>
  The retry loop of \<open>tableGameOpen\<close> ends in one of three ways: a \<open>return\<close> from inside
  the loop, the \<open>break\<close> after a successful \<open>openGame\<close>, or ten failed attempts.
\<close>

datatype 'c retried =
    Returned "error option" "'c tableEngine"
  | Reopened Table "'c tableEngine"
  | Exhausted error "'c tableEngine"

fun openGameRetry :: "'c env \<Rightarrow> nat \<Rightarrow> error \<Rightarrow> 'c tableEngine \<Rightarrow> 'c retried res" where
  "openGameRetry env 0 err te = Ok (Exhausted err te)"
| "openGameRetry env (Suc remaining) err te =
     (let te = te\<lparr> collab := time_Sleep (sync_if env) 3 (collab te) \<rparr>
      in if Status (State (table te)) \<in> set [TableStateStatus_TableGameOpened,
                                                TableStateStatus_TableGamePlaying,
                                                TableStateStatus_TableGameSettled]
         then Ok (Returned None te)
         else (case openGame env te (table te) of
                 Panic \<Rightarrow> Panic
               | Ok ((newTable, None), te) \<Rightarrow> Ok (Reopened newTable te)
               | Ok ((newTable, Some err), te) \<Rightarrow>
                   if err = ErrTableOpenGameFailed then openGameRetry env remaining err te
                   else if err = ErrTableOpenGameFailedInBlindBreakingLevel
                   then Ok (Returned None te)
                   else Ok (Returned (Some err) te)))"

definition commitOpenedGame ::
  "'c env \<Rightarrow> Table \<Rightarrow> 'c tableEngine \<Rightarrow> (error option \<times> 'c tableEngine) res" where
  "commitOpenedGame env newTable te =
     startGame env (emitEvent ''tableGameOpen'' [] (te\<lparr> table := newTable \<rparr>))"

definition tableGameOpen :: "'c env \<Rightarrow> 'c tableEngine \<Rightarrow> (error option \<times> 'c tableEngine) res" where
  "tableGameOpen env te =
     (case GameState (State (table te)) of
        Some gs \<Rightarrow> Ok (None, te)
      | None \<Rightarrow>
          (case openGame env te (table te) of
             Panic \<Rightarrow> Panic
           | Ok ((newTable, None), te) \<Rightarrow> commitOpenedGame env newTable te
           | Ok ((newTable, Some err), te) \<Rightarrow>
               if err = ErrTableOpenGameFailed
               then (case openGameRetry env 10 err te of
                       Panic \<Rightarrow> Panic
                     | Ok (Returned result te) \<Rightarrow> Ok (result, te)
                     | Ok (Reopened newTable te) \<Rightarrow> commitOpenedGame env newTable te
                     | Ok (Exhausted err te) \<Rightarrow> Ok (Some err, te))
               else if err = ErrTableOpenGameFailedInBlindBreakingLevel
               then Ok (None, te)
               else Ok (Some err, te)))"

section \<open>Settling a hand and continuing\<close>

text \<open>
  \<open>settleGame\<close> returns \<open>alivePlayers\<close>, a slice of pointers into \<open>PlayerStates\<close>: the
  model returns the positions of the player states pointed to, in the order appended.
\<close>

fun settleRows ::
  "'c env \<Rightarrow> GameState \<Rightarrow> nat \<Rightarrow> int list \<Rightarrow> int list \<Rightarrow> PlayerResult list
     \<Rightarrow> TablePlayerState list \<Rightarrow> nat list \<Rightarrow> (TablePlayerState list \<times> nat list) res" where
  "settleRows env gs notFoldCount winnerPlayerIndexes gamePlayerIndexes [] players alivePlayers =
     Ok (players, alivePlayers)"
| "settleRows env gs notFoldCount winnerPlayerIndexes gamePlayerIndexes (player # rest) players
       alivePlayers =
     (case at_index gamePlayerIndexes (pr_Idx player) of
        None \<Rightarrow> Panic
      | Some playerIdx \<Rightarrow>
          (case at_index players playerIdx of
             None \<Rightarrow> Panic
           | Some playerState \<Rightarrow>
               (let playerState = playerState\<lparr> Bankroll := pr_Final player \<rparr>;
                    stats = GameStatistics playerState;
                    showdown = (case GetPlayer (lib_if env) gs (pr_Idx player) of
                                  None \<Rightarrow> False
                                | Some p \<Rightarrow> \<not> gp_Fold p \<and> notFoldCount > 1);
                    stats = (if showdown
                             then (let stats = stats\<lparr> ShowdownWinningChance := True \<rparr>
                                   in if playerIdx \<in> set winnerPlayerIndexes
                                      then stats\<lparr> IsShowdownWinning := True \<rparr> else stats)
                             else stats\<lparr> ShowdownWinningChance := False \<rparr>);
                    playerState = playerState\<lparr> GameStatistics := stats \<rparr>
                in settleRows env gs notFoldCount winnerPlayerIndexes gamePlayerIndexes rest
                     (players[nat playerIdx := playerState])
                     (if Bankroll playerState > 0 then alivePlayers @ [nat playerIdx]
                      else alivePlayers))))"

definition settleGame :: "'c env \<Rightarrow> 'c tableEngine \<Rightarrow> (nat list \<times> 'c tableEngine) res" where
  "settleGame env te =
     (let te = set_state (\<lambda>s. s\<lparr> Status := TableStateStatus_TableGameSettled \<rparr>) te
      in case GameState (State (table te)) of
           None \<Rightarrow> Panic
         | Some gs \<Rightarrow>
             (case gs_Result gs of
                None \<Rightarrow> Panic
              | Some results \<Rightarrow>
                  (let notFoldCount =
                         length (filter (\<lambda>result. case GetPlayer (lib_if env) gs (pr_Idx result) of
                                                     None \<Rightarrow> False
                                                   | Some p \<Rightarrow> \<not> gp_Fold p) results);
                       winnerGamePlayerIndexes =
                         rank_GetWinners (lib_if env)
                           (map (\<lambda>player. (gp_Power player, gp_Idx player))
                              (filter (\<lambda>player. \<not> gp_Fold player) (gs_Players gs)));
                       winnerPlayerIndexes =
                         filter (\<lambda>playerIdx. playerIdx \<noteq> UnsetValue)
                           (map (FindPlayerIndexFromGamePlayerIndex (table te))
                              winnerGamePlayerIndexes)
                   in bind_res (settleRows env gs notFoldCount winnerPlayerIndexes
                                  (GamePlayerIndexes (State (table te))) results
                                  (PlayerStates (State (table te))) [])
                        (\<lambda>(players, alivePlayers).
                           let te = set_players players te;
                               te = set_state (\<lambda>s. s\<lparr> NextBBOrderPlayerIDs :=
                                      refreshNextBBOrderPlayerIDs
                                        (sm_CurrentBBSeatID (sm_if env) (collab te))
                                        (TableMaxSeatCount (Meta (table te)))
                                        (PlayerStates s) (SeatMap s) \<rparr>) te;
                               te = emitEvent ''SettleTableGameResult'' [] te;
                               te = emitTableStateEvent TableStateEvent_GameSettled te
                           in Ok (alivePlayers, te)))))"

fun resetPlayers ::
  "'c env \<Rightarrow> TablePlayerState list \<Rightarrow> 'c \<Rightarrow> error option \<times> TablePlayerState list \<times> 'c" where
  "resetPlayers env [] c = (None, [], c)"
| "resetPlayers env (playerState # rest) c =
     (let playerState = playerState\<lparr> Positions := [],
                                      GameStatistics := NewPlayerGameStatistics \<rparr>
      in case sm_UpdatePlayerHasChips (sm_if env) (PlayerID playerState)
                (Bankroll playerState > 0) c of
           (Some err, c) \<Rightarrow> (Some err, playerState # rest, c)
         | (None, c) \<Rightarrow>
             (case sm_IsPlayerActive (sm_if env) (PlayerID playerState) c of
                (active, Some err) \<Rightarrow> (Some err, playerState # rest, c)
              | (active, None) \<Rightarrow>
                  (case resetPlayers env rest c of
                     (err, rest', c') \<Rightarrow>
                       (err, playerState\<lparr> IsParticipated := active \<rparr> # rest', c'))))"

definition shouldAutoGameOpen :: "'c tableEngine \<Rightarrow> bool" where
  "shouldAutoGameOpen te =
     (Status (State (table te)) = TableStateStatus_TableGameStandby
      \<and> int (length (AlivePlayers (table te))) \<ge> TableMinPlayerCount (Meta (table te)))"

definition SetUpTableGame ::
  "'c env \<Rightarrow> 'c tableEngine \<Rightarrow> int \<Rightarrow> (string \<times> int) list \<Rightarrow> 'c tableEngine" where
  "SetUpTableGame env te gameCount participants =
     te\<lparr> collab := ogm_Setup (sync_if env) gameCount participants (collab te) \<rparr>"

text \<open>
  \<open>delay\<close> hands the function to the time bank and waits: the task either is cancelled,
  and \<open>delay\<close> returns nil, or runs the function, whose error \<open>delay\<close> returns.
\<close>

definition delay ::
  "'c env \<Rightarrow> int \<Rightarrow> ('c tableEngine \<Rightarrow> error option \<times> 'c tableEngine) \<Rightarrow> 'c tableEngine
     \<Rightarrow> error option \<times> 'c tableEngine" where
  "delay env interval fn te =
     (case tb_NewTask (sync_if env) interval (collab te) of
        (isCancelled, c) \<Rightarrow>
          if isCancelled then (None, te\<lparr> collab := c \<rparr>) else fn (te\<lparr> collab := c \<rparr>))"

definition autoGameOpenEndHandler :: "'c tableEngine \<Rightarrow> error option \<times> 'c tableEngine" where
  "autoGameOpenEndHandler te =
     (None, emitAutoGameOpenEnd (CompetitionID (Meta (table te))) (ID (table te)) te)"

definition continueHandler ::
  "'c env \<Rightarrow> nat list \<Rightarrow> 'c tableEngine \<Rightarrow> error option \<times> 'c tableEngine" where
  "continueHandler env alivePlayers te =
     (if Status (State (table te)) = TableStateStatus_TableClosed then (None, te)
      else if isReleased te then (None, te)
      else if ShouldPause (table te)
      then (let te = set_state (\<lambda>s. s\<lparr> Status := TableStateStatus_TablePausing \<rparr>) te;
                te = emitEvent ''ContinueGame -> Pause'' [] te;
                te = emitTableStateEvent TableStateEvent_StatusUpdated te
            in (None, te))
      else if shouldAutoGameOpen te
      then (let nextGameCount = GameCount (State (table te)) + 1;
                participants =
                  fold (\<lambda>(idx, player) m.
                          AList.update (PlayerID (PlayerStates (State (table te)) ! player))
                            (int idx) m)
                       (enumerate 0 alivePlayers) []
            in (None, SetUpTableGame env te nextGameCount participants))
      else (None, te))"

definition continueGame ::
  "'c env \<Rightarrow> 'c tableEngine \<Rightarrow> nat list \<Rightarrow> error option \<times> 'c tableEngine" where
  "continueGame env te alivePlayers =
     (let te = set_state (\<lambda>s. s\<lparr> Status := TableStateStatus_TableGameStandby,
                                GamePlayerIndexes := [],
                                NextBBOrderPlayerIDs := [],
                                CurrentActionEndAt := 0,
                                GameState := None,
                                LastPlayerGameAction := None \<rparr>) te
      in case resetPlayers env (PlayerStates (State (table te))) (collab te) of
           (Some err, players, c) \<Rightarrow> (Some err, set_players players (te\<lparr> collab := c \<rparr>))
         | (None, players, c) \<Rightarrow>
             (let te = set_players players (te\<lparr> collab := c \<rparr>);
                  ctMTTAutoGameOpenEnd =
                    ((Mode (Meta (table te)) = CompetitionMode_CT
                       \<or> Mode (Meta (table te)) = CompetitionMode_Cash)
                     \<and> time_Now (sync_if env) (collab te)
                         > StartAt (State (table te)) + MaxDuration (Meta (table te)))
              in if ctMTTAutoGameOpenEnd then delay env 1 autoGameOpenEndHandler te
                 else delay env (GameContinueInterval (options te))
                        (continueHandler env alivePlayers) te))"

definition onGameClosed :: "'c env \<Rightarrow> 'c tableEngine \<Rightarrow> (error option \<times> 'c tableEngine) res" where
  "onGameClosed env te =
     bind_res (settleGame env te) (\<lambda>(alivePlayers, te). Ok (continueGame env te alivePlayers))"
section \<open>Chance flags of the player about to act\<close>

definition validateGameStatisticGameState :: "'c env \<Rightarrow> int \<Rightarrow> GameState \<Rightarrow> bool res" where
  "validateGameStatisticGameState env gamePlayerIdx gs =
     (let validEvent = GameEventSymbols (lib_if env) GameEvent_Started;
          validRounds = [GameRound_Preflop, GameRound_Flop, GameRound_Turn, GameRound_River];
          validActions = [WagerAction_Fold, WagerAction_Check, WagerAction_Call,
                          WagerAction_AllIn, WagerAction_Bet, WagerAction_Raise]
      in if \<not> (gs_CurrentEvent (gs_Status gs) = validEvent
                 \<and> gs_Round (gs_Status gs) \<in> set validRounds)
         then Ok False
         else (case at_index (gs_Players gs) gamePlayerIdx of
                 None \<Rightarrow> Panic
               | Some player \<Rightarrow>
                   if \<not> gp_Acted player then Ok False
                   else if length (gp_AllowedActions player) \<le> 0 then Ok False
                   else if list_ex (\<lambda>action. action \<notin> set validActions) (gp_AllowedActions player)
                   then Ok False
                   else Ok True))"

definition validateGameRoundChance :: "string \<Rightarrow> string \<Rightarrow> bool" where
  "validateGameRoundChance round statisticRound =
     (let preflopChances = [GameStatisticRound_VPIP, GameStatisticRound_PFR,
                            GameStatisticRound_ATS, GameStatisticRound_ThreeBet,
                            GameStatisticRound_Ft3B];
          flopChances = [GameStatisticRound_CheckRaise, GameStatisticRound_CBet,
                         GameStatisticRound_FtCB]
      in if round = GameRound_Preflop then statisticRound \<in> set preflopChances
         else if round = GameRound_Flop then statisticRound \<in> set flopChances
         else False)"

definition isVPIPChance :: "'c env \<Rightarrow> 'c tableEngine \<Rightarrow> int \<Rightarrow> GameState \<Rightarrow> bool res" where
  "isVPIPChance env te gamePlayerIdx gs =
     bind_res (validateGameStatisticGameState env gamePlayerIdx gs) (\<lambda>valid.
       if \<not> valid then Ok False
       else if \<not> validateGameRoundChance (gs_Round (gs_Status gs)) GameStatisticRound_VPIP
       then Ok False
       else (let playerIdx = FindPlayerIndexFromGamePlayerIndex (table te) gamePlayerIdx
             in if playerIdx = UnsetValue then Ok False
                else (case at_index (PlayerStates (State (table te))) playerIdx of
                        None \<Rightarrow> Panic
                      | Some p \<Rightarrow> Ok (\<not> IsVPIP (GameStatistics p)))))"

definition isPFRChance :: "'c env \<Rightarrow> 'c tableEngine \<Rightarrow> int \<Rightarrow> GameState \<Rightarrow> bool res" where
  "isPFRChance env te gamePlayerIdx gs =
     bind_res (validateGameStatisticGameState env gamePlayerIdx gs) (\<lambda>valid.
       if \<not> valid then Ok False
       else if \<not> validateGameRoundChance (gs_Round (gs_Status gs)) GameStatisticRound_PFR
       then Ok False
       else (let others = filter (\<lambda>p. gamePlayerIdx \<noteq> gp_Idx p) (gs_Players gs);
                 allinCall = length (filter (\<lambda>p. gp_DidAction p = WagerAction_AllIn
                                 \<and> gs_CurrentRaiser (gs_Status gs) \<noteq> gp_Idx p) others);
                 call = length (filter (\<lambda>p. gp_DidAction p = WagerAction_Call) others);
                 fold = length (filter (\<lambda>p. gp_DidAction p = WagerAction_Fold) others)
             in Ok (int (allinCall + call + fold) = int (length (gs_Players gs)) - 1)))"

definition isATSChance :: "'c env \<Rightarrow> 'c tableEngine \<Rightarrow> int \<Rightarrow> GameState \<Rightarrow> bool res" where
  "isATSChance env te gamePlayerIdx gs =
     bind_res (validateGameStatisticGameState env gamePlayerIdx gs) (\<lambda>valid.
       if \<not> valid then Ok False
       else if \<not> validateGameRoundChance (gs_Round (gs_Status gs)) GameStatisticRound_ATS
       then Ok False
       else (let acted = length (filter gp_Acted (gs_Players gs));
                 fold = length (filter (\<lambda>p. gp_Acted p \<and> gamePlayerIdx \<noteq> gp_Idx p \<and> gp_Fold p)
                                  (gs_Players gs));
                 validPositions = (HasPosition (lib_if env) gs gamePlayerIdx Position_SB
                                   \<or> HasPosition (lib_if env) gs gamePlayerIdx Position_CO
                                   \<or> HasPosition (lib_if env) gs gamePlayerIdx Position_Dealer)
             in Ok (int fold = int acted - 1 \<and> validPositions)))"

definition is3BChance :: "'c env \<Rightarrow> 'c tableEngine \<Rightarrow> int \<Rightarrow> GameState \<Rightarrow> bool res" where
  "is3BChance env te gamePlayerIdx gs =
     (if \<not> validateGameRoundChance (gs_Round (gs_Status gs)) GameStatisticRound_ThreeBet
      then Ok False
      else (let others = filter (\<lambda>p. gamePlayerIdx \<noteq> gp_Idx p) (gs_Players gs);
                allinRaiser = length (filter (\<lambda>p. gp_DidAction p = WagerAction_AllIn
                                 \<and> gs_CurrentRaiser (gs_Status gs) = gp_Idx p) others);
                raiser = length (filter (\<lambda>p. gp_DidAction p = WagerAction_Raise) others)
            in Ok ((allinRaiser = 1 \<and> raiser = 0) \<or> (allinRaiser = 0 \<and> raiser = 1))))"

text \<open>
  \<open>IsFt3BChance\<close> and \<open>isFtCBChance\<close> look for another player of the table whose flag
  (\<open>Is3B\<close>, \<open>IsCBet\<close>) is set.
\<close>

definition otherPlayerHas ::
  "(TablePlayerGameStatistics \<Rightarrow> bool) \<Rightarrow> int \<Rightarrow> TablePlayerState list \<Rightarrow> bool" where
  "otherPlayerHas flag playerIdx players =
     list_ex (\<lambda>(idx, p). playerIdx \<noteq> int idx \<and> flag (GameStatistics p)) (enumerate 0 players)"

definition IsFt3BChance_fn ::
  "'c env \<Rightarrow> 'c tableEngine \<Rightarrow> int \<Rightarrow> TablePlayerState list \<Rightarrow> GameState \<Rightarrow> bool res" where
  "IsFt3BChance_fn env te gamePlayerIdx players gs =
     bind_res (validateGameStatisticGameState env gamePlayerIdx gs) (\<lambda>valid.
       if \<not> valid then Ok False
       else if \<not> validateGameRoundChance (gs_Round (gs_Status gs)) GameStatisticRound_Ft3B
       then Ok False
       else (let playerIdx = FindPlayerIndexFromGamePlayerIndex (table te) gamePlayerIdx
             in if playerIdx = UnsetValue then Ok False
                else Ok (otherPlayerHas Is3B playerIdx players)))"

definition canRaiseOrAllin :: "GamePlayer \<Rightarrow> GameState \<Rightarrow> bool" where
  "canRaiseOrAllin player gs =
     (let canRaise = WagerAction_Raise \<in> set (gp_AllowedActions player);
          canAllinRaiser = (WagerAction_AllIn \<in> set (gp_AllowedActions player)
                            \<and> gp_StackSize player > gs_MiniBet (gs_Status gs))
      in canRaise \<or> canAllinRaiser)"

definition isCheckRaiseChance :: "'c env \<Rightarrow> 'c tableEngine \<Rightarrow> int \<Rightarrow> GameState \<Rightarrow> bool res" where
  "isCheckRaiseChance env te gamePlayerIdx gs =
     bind_res (validateGameStatisticGameState env gamePlayerIdx gs) (\<lambda>valid.
       if \<not> valid then Ok False
       else if \<not> validateGameRoundChance (gs_Round (gs_Status gs)) GameStatisticRound_CheckRaise
       then Ok False
       else (case GetPlayer (lib_if env) gs gamePlayerIdx of
               None \<Rightarrow> Panic
             | Some player \<Rightarrow>
                 if gp_DidAction player \<noteq> WagerAction_Check then Ok False
                 else Ok (canRaiseOrAllin player gs)))"

definition isCBetChance :: "'c env \<Rightarrow> 'c tableEngine \<Rightarrow> int \<Rightarrow> GameState \<Rightarrow> bool res" where
  "isCBetChance env te gamePlayerIdx gs =
     bind_res (validateGameStatisticGameState env gamePlayerIdx gs) (\<lambda>valid.
       if \<not> valid then Ok False
       else if \<not> validateGameRoundChance (gs_Round (gs_Status gs)) GameStatisticRound_CBet
       then Ok False
       else (case GetPlayer (lib_if env) gs gamePlayerIdx of
               None \<Rightarrow> Panic
             | Some player \<Rightarrow>
                 (let isPreflopRaiser = (gs_CurrentRaiser (gs_Status gs) = gamePlayerIdx);
                      canBet = WagerAction_Bet \<in> set (gp_AllowedActions player);
                      validAction = (canBet \<or> canRaiseOrAllin player gs)
                  in Ok (isPreflopRaiser \<and> validAction))))"

definition isFtCBChance ::
  "'c env \<Rightarrow> 'c tableEngine \<Rightarrow> int \<Rightarrow> TablePlayerState list \<Rightarrow> GameState \<Rightarrow> bool res" where
  "isFtCBChance env te gamePlayerIdx players gs =
     bind_res (validateGameStatisticGameState env gamePlayerIdx gs) (\<lambda>valid.
       if \<not> valid then Ok False
       else if \<not> validateGameRoundChance (gs_Round (gs_Status gs)) GameStatisticRound_FtCB
       then Ok False
       else (let playerIdx = FindPlayerIndexFromGamePlayerIndex (table te) gamePlayerIdx
             in if playerIdx = UnsetValue then Ok False
                else Ok (otherPlayerHas IsCBet playerIdx players)))"

text \<open>\<open>if chance { currentPlayer.GameStatistics.flag = true }\<close>\<close>

definition flagIf ::
  "bool res \<Rightarrow> nat \<Rightarrow> (TablePlayerGameStatistics \<Rightarrow> TablePlayerGameStatistics)
     \<Rightarrow> 'c tableEngine \<Rightarrow> 'c tableEngine res" where
  "flagIf chance currentPlayer setFlag te =
     bind_res chance (\<lambda>b. Ok (if b then modify_stats currentPlayer setFlag te else te))"

definition updateCurrentPlayerGameStatistics ::
  "'c env \<Rightarrow> 'c tableEngine \<Rightarrow> GameState \<Rightarrow> 'c tableEngine res" where
  "updateCurrentPlayerGameStatistics env te gs =
     (let currentGamePlayerIdx = gs_CurrentPlayer (gs_Status gs);
          currentPlayerIdx = FindPlayerIndexFromGamePlayerIndex (table te) currentGamePlayerIdx
      in if currentPlayerIdx = UnsetValue then Ok te
         else
           bind_res (playerStateAt te currentPlayerIdx) (\<lambda>currentPlayer.
           bind_res (flagIf (isVPIPChance env te currentGamePlayerIdx gs) currentPlayer
                       (\<lambda>s. s\<lparr> IsVPIPChance := True \<rparr>) te) (\<lambda>te.
           bind_res (flagIf (isPFRChance env te currentGamePlayerIdx gs) currentPlayer
                       (\<lambda>s. s\<lparr> IsPFRChance := True \<rparr>) te) (\<lambda>te.
           bind_res (flagIf (isATSChance env te currentGamePlayerIdx gs) currentPlayer
                       (\<lambda>s. s\<lparr> IsATSChance := True \<rparr>) te) (\<lambda>te.
           bind_res (flagIf (is3BChance env te currentGamePlayerIdx gs) currentPlayer
                       (\<lambda>s. s\<lparr> Is3BChance := True \<rparr>) te) (\<lambda>te.
           bind_res (flagIf (IsFt3BChance_fn env te currentGamePlayerIdx
                               (PlayerStates (State (table te))) gs) currentPlayer
                       (\<lambda>s. s\<lparr> IsFt3BChance := True \<rparr>) te) (\<lambda>te.
           bind_res (flagIf (isCheckRaiseChance env te currentGamePlayerIdx gs) currentPlayer
                       (\<lambda>s. s\<lparr> IsCheckRaiseChance := True \<rparr>) te) (\<lambda>te.
           bind_res (flagIf (isCBetChance env te currentGamePlayerIdx gs) currentPlayer
                       (\<lambda>s. s\<lparr> IsCBetChance := True \<rparr>) te) (\<lambda>te.
           flagIf (isFtCBChance env te currentGamePlayerIdx
                     (PlayerStates (State (table te))) gs) currentPlayer
             (\<lambda>s. s\<lparr> IsFtCBChance := True \<rparr>) te)))))))))"

section \<open>Callbacks of the hand driver\<close>

definition updateCurrentActionEndAt ::
  "'c env \<Rightarrow> 'c tableEngine \<Rightarrow> GameEvent \<Rightarrow> GameState \<Rightarrow> 'c tableEngine res" where
  "updateCurrentActionEndAt env te event gs =
     (let validRounds = [GameRound_Preflop, GameRound_Flop, GameRound_Turn, GameRound_River];
          validRoundState = (Status (State (table te)) = TableStateStatus_TableGamePlaying
                             \<and> event = GameEvent_RoundStarted
                             \<and> gs_Round (gs_Status gs) \<in> set validRounds);
          validActions = [WagerAction_Call, WagerAction_Raise, WagerAction_AllIn,
                          WagerAction_Check, WagerAction_Fold, WagerAction_Bet]
      in case GetPlayer (lib_if env) gs (gs_CurrentPlayer (gs_Status gs)) of
           None \<Rightarrow> Panic
         | Some p \<Rightarrow>
             (let isActionValid = list_all (\<lambda>action. action \<in> set validActions)
                                    (gp_AllowedActions p);
                  playerUnmoved = (length (gp_AllowedActions p) > 0 \<and> \<not> gp_Acted p)
              in Ok (if validRoundState \<and> playerUnmoved \<and> isActionValid
                     then set_state (\<lambda>s. s\<lparr> CurrentActionEndAt :=
                                             time_Now (sync_if env) (collab te)
                                             + ActionTime (Meta (table te)) \<rparr>) te
                     else te)))"

definition updateGameState :: "'c env \<Rightarrow> 'c tableEngine \<Rightarrow> GameState \<Rightarrow> 'c tableEngine res" where
  "updateGameState env te gs =
     (let te = set_state (\<lambda>s. s\<lparr> GameState := Some gs \<rparr>) te
      in bind_res (if Status (State (table te)) = TableStateStatus_TableGamePlaying
                   then updateCurrentPlayerGameStatistics env te gs else Ok te) (\<lambda>te.
           case GameEventBySymbol (lib_if env) (gs_CurrentEvent (gs_Status gs)) of
             None \<Rightarrow> Ok (emitErrorEvent ''handle updateGameState'' [] ErrGameUnknownEvent te)
           | Some event \<Rightarrow>
               if event = GameEvent_GameClosed
               then bind_res (onGameClosed env te) (\<lambda>(err, te).
                      case err of
                        None \<Rightarrow> Ok te
                      | Some e \<Rightarrow> Ok (emitErrorEvent ''onGameClosed'' [] e te))
               else bind_res (updateCurrentActionEndAt env te event gs) (\<lambda>te.
                      let te = emitEvent (gs_CurrentEvent (gs_Status gs)) [] te;
                          te = emitTableStateEvent TableStateEvent_GameUpdated te
                      in Ok (if event = GameEvent_RoundClosed
                             then set_state (\<lambda>s. s\<lparr> LastPlayerGameAction := None \<rparr>) te
                             else te))))"

definition onGameErrorUpdated ::
  "'c tableEngine \<Rightarrow> GameState option \<Rightarrow> error \<Rightarrow> 'c tableEngine" where
  "onGameErrorUpdated te gs err =
     emitErrorEvent ''OnGameErrorUpdated'' [] err (set_state (\<lambda>s. s\<lparr> GameState := gs \<rparr>) te)"

definition onGameRoundClosed :: "'c tableEngine \<Rightarrow> 'c tableEngine" where
  "onGameRoundClosed te = set_state (\<lambda>s. s\<lparr> CurrentActionEndAt := 0 \<rparr>) te"

text \<open>
  \<open>OnAntesReceived\<close> and \<open>OnBlindsReceived\<close> emit a pay action for the players of the
  hand state; the second once for each SB or BB tag of a player.
\<close>

definition emitPayAction ::
  "'c env \<Rightarrow> int \<Rightarrow> GamePlayer \<Rightarrow> string option \<Rightarrow> 'c tableEngine \<Rightarrow> 'c tableEngine res" where
  "emitPayAction env gpIdx p round te =
     (let playerIdx = FindPlayerIndexFromGamePlayerIndex (table te) gpIdx
      in if playerIdx \<noteq> UnsetValue
         then (case at_index (PlayerStates (State (table te))) playerIdx of
                 None \<Rightarrow> Panic
               | Some player \<Rightarrow>
                   bind_res (createPlayerGameAction env te (PlayerID player) playerIdx ''pay''
                               (Bankroll player) (Some p)) (\<lambda>pga.
                     Ok (emitGamePlayerActionEvent
                           (case round of None \<Rightarrow> pga | Some r \<Rightarrow> pga\<lparr> pga_Round := r \<rparr>) te)))
         else Ok te)"

fun onAntesReceived_from ::
  "'c env \<Rightarrow> int \<Rightarrow> GamePlayer list \<Rightarrow> 'c tableEngine \<Rightarrow> 'c tableEngine res" where
  "onAntesReceived_from env gpIdx [] te = Ok te"
| "onAntesReceived_from env gpIdx (p # rest) te =
     (case emitPayAction env gpIdx p (Some ''ante'') te of
        Panic \<Rightarrow> Panic
      | Ok te \<Rightarrow> onAntesReceived_from env (gpIdx + 1) rest te)"

definition onAntesReceived :: "'c env \<Rightarrow> 'c tableEngine \<Rightarrow> GameState \<Rightarrow> 'c tableEngine res" where
  "onAntesReceived env te gs = onAntesReceived_from env 0 (gs_Players gs) te"

fun onBlindsReceived_positions ::
  "'c env \<Rightarrow> int \<Rightarrow> GamePlayer \<Rightarrow> string list \<Rightarrow> 'c tableEngine \<Rightarrow> 'c tableEngine res" where
  "onBlindsReceived_positions env gpIdx p [] te = Ok te"
| "onBlindsReceived_positions env gpIdx p (pos # rest) te =
     (if pos \<in> set [Position_SB, Position_BB]
      then (case emitPayAction env gpIdx p None te of
              Panic \<Rightarrow> Panic
            | Ok te \<Rightarrow> onBlindsReceived_positions env gpIdx p rest te)
      else onBlindsReceived_positions env gpIdx p rest te)"

fun onBlindsReceived_from ::
  "'c env \<Rightarrow> int \<Rightarrow> GamePlayer list \<Rightarrow> 'c tableEngine \<Rightarrow> 'c tableEngine res" where
  "onBlindsReceived_from env gpIdx [] te = Ok te"
| "onBlindsReceived_from env gpIdx (p # rest) te =
     (case onBlindsReceived_positions env gpIdx p (gp_Positions p) te of
        Panic \<Rightarrow> Panic
      | Ok te \<Rightarrow> onBlindsReceived_from env (gpIdx + 1) rest te)"

definition onBlindsReceived :: "'c env \<Rightarrow> 'c tableEngine \<Rightarrow> GameState \<Rightarrow> 'c tableEngine res" where
  "onBlindsReceived env te gs = onBlindsReceived_from env 0 (gs_Players gs) te"
section \<open>Players joining and leaving\<close>

text \<open>
  \<open>playersAutoIn\<close> arms the ready group over the players that have not joined yet. The
  completion callback it registers is the transition \<open>playersAutoInCompleted\<close> below.
\<close>

definition playersAutoIn :: "'c env \<Rightarrow> 'c tableEngine \<Rightarrow> 'c tableEngine" where
  "playersAutoIn env te =
     (let c = rg_Stop (sync_if env) (collab te);
          c = rg_SetTimeoutInterval (sync_if env) 17 c;
          c = rg_ResetParticipants (sync_if env) c;
          c = fold (\<lambda>(playerIdx, player) c.
                      if \<not> IsIn player then rg_Add (sync_if env) (int playerIdx) False c else c)
                   (enumerate 0 (PlayerStates (State (table te)))) c;
          c = rg_Start (sync_if env) c
      in te\<lparr> collab := c \<rparr>)"

fun collectNewPlayers ::
  "'c env \<Rightarrow> 'c \<Rightarrow> nat \<Rightarrow> JoinPlayer list \<Rightarrow> (int \<times> int) list \<Rightarrow> TablePlayerState list
     \<Rightarrow> error + (int \<times> int) list \<times> TablePlayerState list" where
  "collectNewPlayers env c playerCount [] newSeatMap newPlayers = Inr (newSeatMap, newPlayers)"
| "collectNewPlayers env c playerCount (player # rest) newSeatMap newPlayers =
     (case sm_GetSeatID (sm_if env) (jp_PlayerID player) c of
        (seat, Some err) \<Rightarrow> Inl err
      | (seat, None) \<Rightarrow>
          (let newPlayers = newPlayers @
                 [\<lparr> PlayerID = jp_PlayerID player, Seat = seat, Positions = [],
                    Bankroll = jp_RedeemChips player, IsIn = False, IsParticipated = False,
                    GameStatistics = NewPlayerGameStatistics \<rparr>];
               newPlayerIdx = int playerCount + int (length newPlayers) - 1
           in collectNewPlayers env c playerCount rest
                (AList.update seat newPlayerIdx newSeatMap) newPlayers))"

definition batchAddPlayers ::
  "'c env \<Rightarrow> 'c tableEngine \<Rightarrow> JoinPlayer list \<Rightarrow> error option \<times> 'c tableEngine" where
  "batchAddPlayers env te players =
     (let playerSeatIDs = fold (\<lambda>p m. if jp_Seat p = UnsetSeatID then m
                                       else AList.update (jp_PlayerID p) (jp_Seat p) m) players [];
          playerRandomSeatIDs = map jp_PlayerID (filter (\<lambda>p. jp_Seat p = UnsetSeatID) players)
      in case (if length playerSeatIDs > 0
               then sm_AssignSeats (sm_if env) playerSeatIDs (collab te)
               else (None, collab te)) of
           (Some err, c) \<Rightarrow> (Some err, te\<lparr> collab := c \<rparr>)
         | (None, c) \<Rightarrow>
             (case (if length playerRandomSeatIDs > 0
                    then sm_RandomAssignSeats (sm_if env) playerRandomSeatIDs c
                    else (None, c)) of
                (Some err, c) \<Rightarrow> (Some err, te\<lparr> collab := c \<rparr>)
              | (None, c) \<Rightarrow>
                  (let te = te\<lparr> collab := c \<rparr>
                   in case collectNewPlayers env c (length (PlayerStates (State (table te))))
                             players (SeatMap (State (table te))) [] of
                        Inl err \<Rightarrow> (Some err, te)
                      | Inr (newSeatMap, newPlayers) \<Rightarrow>
                          (let te = set_state (\<lambda>s. s\<lparr> SeatMap := newSeatMap,
                                                       PlayerStates := PlayerStates s @ newPlayers \<rparr>)
                                      te;
                               te = playersAutoIn env te;
                               te = fold (\<lambda>player te. emitTablePlayerReservedEvent player
                                                        (emitTablePlayerStateEvent player te))
                                      newPlayers te
                           in (None, te)))))"

text \<open>
  \<open>calcLeavePlayers\<close> reads \<open>PlayerStates[playerIdx]\<close> for every game-player index,
  whatever the status; an index out of range panics.
\<close>

fun currentGamePlayerData ::
  "TablePlayerState list \<Rightarrow> int list \<Rightarrow> (int \<times> string) list \<Rightarrow> (int \<times> string) list res" where
  "currentGamePlayerData players [] m = Ok m"
| "currentGamePlayerData players (playerIdx # rest) m =
     (case at_index players playerIdx of
        None \<Rightarrow> Panic
      | Some p \<Rightarrow> currentGamePlayerData players rest (AList.update playerIdx (PlayerID p) m))"

definition calcLeavePlayers ::
  "'c tableEngine \<Rightarrow> string \<Rightarrow> string list \<Rightarrow> TablePlayerState list \<Rightarrow> int
     \<Rightarrow> (TablePlayerState list \<times> (int \<times> int) list \<times> int list) res" where
  "calcLeavePlayers te status leavePlayerIDs currentPlayers tableMaxSeatCount =
     (let newPlayerStates = filter (\<lambda>player. PlayerID player \<notin> set leavePlayerIDs) currentPlayers;
          newSeatMap = fold (\<lambda>(newPlayerIdx, player) m. AList.update (Seat player) (int newPlayerIdx) m)
                         (enumerate 0 newPlayerStates) (NewDefaultSeatMap tableMaxSeatCount);
          newPlayerData = fold (\<lambda>(newPlayerIdx, player) m.
                                  AList.update (PlayerID player) (int newPlayerIdx) m)
                            (enumerate 0 newPlayerStates) [];
          gameStatuses = [TableStateStatus_TableGameOpened, TableStateStatus_TableGamePlaying,
                          TableStateStatus_TableGameSettled]
      in bind_res (currentGamePlayerData (PlayerStates (State (table te)))
                     (GamePlayerIndexes (State (table te))) []) (\<lambda>gamePlayerData.
           let newGamePlayerIndexes =
                 (if status \<in> set gameStatuses
                  then concat (map (\<lambda>currentPlayerIdx.
                                      let playerID = (case map_of gamePlayerData currentPlayerIdx of
                                                        None \<Rightarrow> [] | Some v \<Rightarrow> v)
                                      in case map_of newPlayerData playerID of
                                           None \<Rightarrow> []
                                         | Some newPlayerIdx \<Rightarrow> [newPlayerIdx])
                                (GamePlayerIndexes (State (table te))))
                  else GamePlayerIndexes (State (table te)))
           in Ok (newPlayerStates, newSeatMap, newGamePlayerIndexes)))"

definition batchRemovePlayers ::
  "'c env \<Rightarrow> 'c tableEngine \<Rightarrow> string list \<Rightarrow> (error option \<times> 'c tableEngine) res" where
  "batchRemovePlayers env te playerIDs =
     bind_res (calcLeavePlayers te (Status (State (table te))) playerIDs
                 (PlayerStates (State (table te))) (TableMaxSeatCount (Meta (table te))))
       (\<lambda>(newPlayerStates, newSeatMap, newGamePlayerIndexes).
          let te = set_state (\<lambda>s. s\<lparr> PlayerStates := newPlayerStates, SeatMap := newSeatMap,
                                      GamePlayerIndexes := newGamePlayerIndexes \<rparr>) te
          in case sm_RemoveSeats (sm_if env) playerIDs (collab te) of
               (err, c) \<Rightarrow> Ok (err, te\<lparr> collab := c \<rparr>))"

section \<open>Public table actions\<close>

definition ReleaseTable :: "'c tableEngine \<Rightarrow> error option \<times> 'c tableEngine" where
  "ReleaseTable te = (None, te\<lparr> isReleased := True \<rparr>)"

definition PauseTable :: "'c tableEngine \<Rightarrow> error option \<times> 'c tableEngine" where
  "PauseTable te =
     (None, emitTableStateEvent TableStateEvent_StatusUpdated
              (set_state (\<lambda>s. s\<lparr> Status := TableStateStatus_TablePausing \<rparr>) te))"

definition CloseTable :: "'c tableEngine \<Rightarrow> error option \<times> 'c tableEngine" where
  "CloseTable te =
     (let te = set_state (\<lambda>s. s\<lparr> Status := TableStateStatus_TableClosed \<rparr>) te;
          te = snd (ReleaseTable te);
          te = emitEvent ''CloseTable'' [] te;
          te = emitTableStateEvent TableStateEvent_StatusUpdated te
      in (None, te))"

definition StartTableGame :: "'c env \<Rightarrow> 'c tableEngine \<Rightarrow> error option \<times> 'c tableEngine" where
  "StartTableGame env te =
     (if StartAt (State (table te)) \<noteq> UnsetValue then (None, te)
      else (let te = set_state (\<lambda>s. s\<lparr> StartAt := time_Now (sync_if env) (collab te) \<rparr>) te;
                te = emitEvent ''StartTableGame'' [] te;
                te = emitReadyOpenFirstTableGame (GameCount (State (table te)))
                       (PlayerStates (State (table te))) te
            in (None, te)))"

text \<open>\<open>UpdateBlind\<close> writes through the \<open>BlindState\<close> pointer; a nil pointer panics.\<close>

definition UpdateBlind ::
  "'c tableEngine \<Rightarrow> int \<Rightarrow> int \<Rightarrow> int \<Rightarrow> int \<Rightarrow> int \<Rightarrow> 'c tableEngine res" where
  "UpdateBlind te level ante dealer sb bb =
     (case BlindState (State (table te)) of
        None \<Rightarrow> Panic
      | Some blind \<Rightarrow>
          Ok (set_state (\<lambda>s. s\<lparr> BlindState :=
                Some (blind\<lparr> Level := level, Ante := ante, Dealer := dealer, SB := sb, BB := bb \<rparr>) \<rparr>)
                te))"

definition UpdateTablePlayers ::
  "'c env \<Rightarrow> 'c tableEngine \<Rightarrow> JoinPlayer list \<Rightarrow> string list
     \<Rightarrow> (((string \<times> int) list option \<times> error option) \<times> 'c tableEngine) res" where
  "UpdateTablePlayers env te joinPlayers leavePlayerIDs =
     bind_res (if length leavePlayerIDs > 0 then batchRemovePlayers env te leavePlayerIDs
               else Ok (None, te)) (\<lambda>(err, te).
       case err of
         Some e \<Rightarrow> Ok ((None, Some e), te)
       | None \<Rightarrow>
           (case (if length joinPlayers > 0 then batchAddPlayers env te joinPlayers
                  else (None, te)) of
              (Some e, te) \<Rightarrow> Ok ((None, Some e), te)
            | (None, te) \<Rightarrow>
                (let te = emitEvent ''UpdateTablePlayers''
                            (''joinPlayers: '' @ strings_Join (map jp_PlayerID joinPlayers) '',''
                             @ '', leavePlayerIDs: '' @ strings_Join leavePlayerIDs '','') te
                 in Ok ((Some (PlayerSeatMap (table te)), None), te))))"

definition PlayerReserve ::
  "'c env \<Rightarrow> 'c tableEngine \<Rightarrow> JoinPlayer \<Rightarrow> error option \<times> 'c tableEngine" where
  "PlayerReserve env te joinPlayer =
     (let targetPlayerIdx = FindPlayerIdx (table te) (jp_PlayerID joinPlayer)
      in if targetPlayerIdx = UnsetValue
         then (if int (length (PlayerStates (State (table te))))
                    = TableMaxSeatCount (Meta (table te))
               then (Some ErrTableNoEmptySeats, te)
               else (case batchAddPlayers env te [joinPlayer] of
                       (Some err, te) \<Rightarrow> (Some err, te)
                     | (None, te) \<Rightarrow> (None, emitEvent ''PlayerReserve'' (jp_PlayerID joinPlayer) te)))
         else (let te = modify_player (nat targetPlayerIdx)
                          (\<lambda>p. p\<lparr> Bankroll := Bankroll p + jp_RedeemChips joinPlayer \<rparr>) te;
                   playerState = PlayerStates (State (table te)) ! nat targetPlayerIdx
               in case sm_UpdatePlayerHasChips (sm_if env) (PlayerID playerState) True (collab te) of
                    (Some err, c) \<Rightarrow> (Some err, te\<lparr> collab := c \<rparr>)
                  | (None, c) \<Rightarrow>
                      (let te = emitTablePlayerStateEvent playerState (te\<lparr> collab := c \<rparr>);
                           te = emitTablePlayerReservedEvent playerState te
                       in (None, emitEvent ''PlayerReserve'' (jp_PlayerID joinPlayer) te))))"

text \<open>
  \<open>FindPlayerIdx\<close> yields \<open>UnsetValue\<close> or the position of a player state, so the reads
  \<open>PlayerStates[playerIdx]\<close> that follow it are in range.
\<close>

definition PlayerJoin :: "'c env \<Rightarrow> 'c tableEngine \<Rightarrow> string \<Rightarrow> error option \<times> 'c tableEngine" where
  "PlayerJoin env te playerID =
     (let playerIdx = FindPlayerIdx (table te) playerID
      in if playerIdx = UnsetValue then (Some ErrTablePlayerNotFound, te)
         else if Seat (PlayerStates (State (table te)) ! nat playerIdx) = UnsetValue
         then (Some ErrTablePlayerInvalidAction, te)
         else if IsIn (PlayerStates (State (table te)) ! nat playerIdx) then (None, te)
         else (let te = modify_player (nat playerIdx) (\<lambda>p. p\<lparr> IsIn := True \<rparr>) te;
                   te = (case rg_GetParticipantStates (sync_if env) (collab te) playerIdx of
                           None \<Rightarrow> te
                         | Some isReady \<Rightarrow>
                             if \<not> isReady
                             then te\<lparr> collab := rg_Ready (sync_if env) playerIdx (collab te) \<rparr>
                             else te)
               in case sm_JoinPlayers (sm_if env) [playerID] (collab te) of
                    (Some err, c) \<Rightarrow> (Some err, te\<lparr> collab := c \<rparr>)
                  | (None, c) \<Rightarrow> (None, emitEvent ''PlayerJoin'' playerID (te\<lparr> collab := c \<rparr>))))"

definition PlayerSettlementFinish ::
  "'c env \<Rightarrow> 'c tableEngine \<Rightarrow> string \<Rightarrow> error option \<times> 'c tableEngine" where
  "PlayerSettlementFinish env te playerID =
     (let playerIdx = FindPlayerIdx (table te) playerID
      in if playerIdx = UnsetValue then (Some ErrTablePlayerNotFound, te)
         else if \<not> IsIn (PlayerStates (State (table te)) ! nat playerIdx)
         then (Some ErrTablePlayerInvalidAction, te)
         else (None, te\<lparr> collab := ogm_Ready (sync_if env) playerID (collab te) \<rparr>))"

definition PlayerRedeemChips ::
  "'c tableEngine \<Rightarrow> JoinPlayer \<Rightarrow> error option \<times> 'c tableEngine" where
  "PlayerRedeemChips te joinPlayer =
     (let playerIdx = FindPlayerIdx (table te) (jp_PlayerID joinPlayer)
      in if playerIdx = UnsetValue then (Some ErrTablePlayerNotFound, te)
         else (let te = modify_player (nat playerIdx)
                          (\<lambda>p. p\<lparr> Bankroll := Bankroll p + jp_RedeemChips joinPlayer \<rparr>) te;
                   te = emitEvent ''PlayerRedeemChips'' (jp_PlayerID joinPlayer) te;
                   te = emitTablePlayerStateEvent
                          (PlayerStates (State (table te)) ! nat playerIdx) te
               in (None, te)))"

definition PlayersLeave ::
  "'c env \<Rightarrow> 'c tableEngine \<Rightarrow> string list \<Rightarrow> (error option \<times> 'c tableEngine) res" where
  "PlayersLeave env te playerIDs =
     bind_res (batchRemovePlayers env te playerIDs) (\<lambda>(err, te).
       case err of
         Some e \<Rightarrow> Ok (Some e, te)
       | None \<Rightarrow>
           (let te = emitEvent ''PlayersLeave'' (strings_Join playerIDs '','') te;
                te = emitTableStateEvent TableStateEvent_PlayersLeave te
            in Ok (None, te)))"

definition PlayerExtendActionDeadline ::
  "'c tableEngine \<Rightarrow> string \<Rightarrow> int \<Rightarrow> (int \<times> error option) \<times> 'c tableEngine" where
  "PlayerExtendActionDeadline te playerID duration =
     (let currentActionEndAt = CurrentActionEndAt (State (table te)) + duration;
          te = set_state (\<lambda>s. s\<lparr> CurrentActionEndAt := currentActionEndAt \<rparr>) te;
          te = emitEvent ''PlayerExtendActionDeadline'' [] te
      in ((currentActionEndAt, None), te))"

section \<open>Creating the table\<close>

definition CreateTable ::
  "'c env \<Rightarrow> 'c tableEngine \<Rightarrow> TableSetting \<Rightarrow> (Table option \<times> error option) \<times> 'c tableEngine" where
  "CreateTable env te tableSetting =
     (if int (length (ts_JoinPlayers tableSetting)) > TableMaxSeatCount (ts_Meta tableSetting)
      then ((None, Some ErrTableInvalidCreateSetting), te)
      else (let c = NewSeatManager (sm_if env) (TableMaxSeatCount (ts_Meta tableSetting))
                      (Rule (ts_Meta tableSetting)) (collab te);
                c = NewOpenGameManager (sync_if env) c;
                status = (if Level (ts_Blind tableSetting) = - 1
                          then TableStateStatus_TablePausing else TableStateStatus_TableCreated);
                state = \<lparr> Status = status,
                          GameState = None,
                          PlayerStates = [],
                          GamePlayerIndexes = [],
                          GameCount = 0,
                          StartAt = UnsetValue,
                          BlindState = Some (ts_Blind tableSetting),
                          CurrentDealerSeat = UnsetValue,
                          CurrentSBSeat = UnsetValue,
                          CurrentBBSeat = UnsetValue,
                          SeatMap = NewDefaultSeatMap (TableMaxSeatCount (ts_Meta tableSetting)),
                          NextBBOrderPlayerIDs = [],
                          LastPlayerGameAction = None,
                          CurrentActionEndAt = 0,
                          GameBlindState = None \<rparr>;
                te = te\<lparr> collab := c,
                         table := \<lparr> ID = ts_TableID tableSetting, Meta = ts_Meta tableSetting,
                                    State = state, UpdateAt = 0, UpdateSerial = 0 \<rparr> \<rparr>;
                te = emitEvent ''CreateTable'' [] te;
                te = emitTableStateEvent TableStateEvent_Created te
            in if length (ts_JoinPlayers tableSetting) > 0
               then (case batchAddPlayers env te (ts_JoinPlayers tableSetting) of
                       (Some err, te) \<Rightarrow> ((None, Some err), te)
                     | (None, te) \<Rightarrow>
                         (let te = (if Mode (Meta (table te)) = CompetitionMode_MTT
                                       \<and> Status (State (table te)) \<noteq> TableStateStatus_TablePausing
                                    then emitTableStateEvent TableStateEvent_StatusUpdated
                                           (set_state (\<lambda>s. s\<lparr> Status :=
                                              TableStateStatus_TableBalancing \<rparr>) te)
                                    else te);
                              te = emitEvent ''CreateTable -> Auto Add Players'' [] te
                          in ((Some (table te), None), te)))
               else ((Some (table te), None), te)))"

section \<open>Callbacks of the ready group and the open-game manager\<close>

definition autoJoinStep ::
  "'c env \<Rightarrow> nat \<Rightarrow> 'c tableEngine \<times> int \<times> int \<Rightarrow> 'c tableEngine \<times> int \<times> int" where
  "autoJoinStep env playerIdx acc =
     (case acc of
        (te, isInCount, alivePlayers) \<Rightarrow>
          (let player = PlayerStates (State (table te)) ! playerIdx;
               te = (if \<not> IsIn player then snd (PlayerJoin env te (PlayerID player)) else te);
               isInCount = (if IsIn (PlayerStates (State (table te)) ! playerIdx)
                            then isInCount + 1 else isInCount);
               alivePlayers = (if Bankroll (PlayerStates (State (table te)) ! playerIdx) > 0
                               then alivePlayers + 1 else alivePlayers)
           in (te, isInCount, alivePlayers)))"

definition playersAutoInCompleted :: "'c env \<Rightarrow> 'c tableEngine \<Rightarrow> 'c tableEngine res" where
  "playersAutoInCompleted env te =
     (case fold (autoJoinStep env) [0 ..< length (PlayerStates (State (table te)))] (te, 0, 0) of
        (te, isInCount, alivePlayers) \<Rightarrow>
          (let gameStartingStatuses = [TableStateStatus_TableGameOpened,
                                       TableStateStatus_TableGamePlaying,
                                       TableStateStatus_TableGameSettled,
                                       TableStateStatus_TableGameStandby];
               isGameRunning = Status (State (table te)) \<in> set gameStartingStatuses
           in if isInCount \<ge> 2 \<and> alivePlayers \<ge> 2 \<and> \<not> isGameRunning
              then (case BlindState (State (table te)) of
                      None \<Rightarrow> Panic
                    | Some blind \<Rightarrow>
                        if Level blind > 0 \<and> GameCount (State (table te)) = 0
                        then (if Mode (Meta (table te)) = CompetitionMode_MTT
                              then (case StartTableGame env te of
                                      (Some err, te) \<Rightarrow> Ok (emitErrorEvent ''StartTableGame'' [] err te)
                                    | (None, te) \<Rightarrow> Ok te)
                              else Ok te)
                        else Ok te)
              else Ok te))"

definition OnOpenGameReady ::
  "'c env \<Rightarrow> 'c tableEngine \<Rightarrow> (string \<times> int) list \<Rightarrow> 'c tableEngine res" where
  "OnOpenGameReady env te participants =
     (if length participants \<le> 1 then Ok te
      else bind_res (tableGameOpen env te) (\<lambda>(err, te).
             case err of
               None \<Rightarrow> Ok te
             | Some e \<Rightarrow> Ok (emitErrorEvent ''OnOpenGameReady#tableGameOpen'' [] e te)))"
section \<open>The lifetime of a table\<close>

text \<open>
  After \<open>CreateTable\<close> the engine is driven by the calls of its owner (the public
  actions) and by the callbacks of its collaborators. \<open>perform\<close> runs one of them and
  keeps the engine; \<open>run\<close> runs a sequence, stopping at a panic.
\<close>

datatype call =
    Call_ReleaseTable
  | Call_PauseTable
  | Call_CloseTable
  | Call_StartTableGame
  | Call_UpdateBlind int int int int int
  | Call_SetUpTableGame int "(string \<times> int) list"
  | Call_UpdateTablePlayers "JoinPlayer list" "string list"
  | Call_PlayerReserve JoinPlayer
  | Call_PlayerJoin string
  | Call_PlayerSettlementFinish string
  | Call_PlayerRedeemChips JoinPlayer
  | Call_PlayersLeave "string list"
  | Call_PlayerExtendActionDeadline string int
  | Call_PlayerReady string
  | Call_PlayerPay string int
  | Call_PlayerBet string int
  | Call_PlayerRaise string int
  | Call_PlayerCall string
  | Call_PlayerAllin string
  | Call_PlayerCheck string
  | Call_PlayerFold string
  | Call_PlayerPass string
  | Callback_OpenGameReady "(string \<times> int) list"
  | Callback_GameStateUpdated GameState
  | Callback_GameErrorUpdated "GameState option" error
  | Callback_AntesReceived GameState
  | Callback_BlindsReceived GameState
  | Callback_GameRoundClosed
  | Callback_PlayersAutoInCompleted

fun perform :: "'c env \<Rightarrow> call \<Rightarrow> 'c tableEngine \<Rightarrow> 'c tableEngine res" where
  "perform env Call_ReleaseTable te = Ok (snd (ReleaseTable te))"
| "perform env Call_PauseTable te = Ok (snd (PauseTable te))"
| "perform env Call_CloseTable te = Ok (snd (CloseTable te))"
| "perform env Call_StartTableGame te = Ok (snd (StartTableGame env te))"
| "perform env (Call_UpdateBlind level ante dealer sb bb) te = UpdateBlind te level ante dealer sb bb"
| "perform env (Call_SetUpTableGame gameCount participants) te =
     Ok (SetUpTableGame env te gameCount participants)"
| "perform env (Call_UpdateTablePlayers joinPlayers leavePlayerIDs) te =
     map_res snd (UpdateTablePlayers env te joinPlayers leavePlayerIDs)"
| "perform env (Call_PlayerReserve joinPlayer) te = Ok (snd (PlayerReserve env te joinPlayer))"
| "perform env (Call_PlayerJoin playerID) te = Ok (snd (PlayerJoin env te playerID))"
| "perform env (Call_PlayerSettlementFinish playerID) te =
     Ok (snd (PlayerSettlementFinish env te playerID))"
| "perform env (Call_PlayerRedeemChips joinPlayer) te = Ok (snd (PlayerRedeemChips te joinPlayer))"
| "perform env (Call_PlayersLeave playerIDs) te = map_res snd (PlayersLeave env te playerIDs)"
| "perform env (Call_PlayerExtendActionDeadline playerID duration) te =
     Ok (snd (PlayerExtendActionDeadline te playerID duration))"
| "perform env (Call_PlayerReady playerID) te = map_res snd (PlayerReady env te playerID)"
| "perform env (Call_PlayerPay playerID chips) te = map_res snd (PlayerPay env te playerID chips)"
| "perform env (Call_PlayerBet playerID chips) te = map_res snd (PlayerBet env te playerID chips)"
| "perform env (Call_PlayerRaise playerID chipLevel) te =
     map_res snd (PlayerRaise env te playerID chipLevel)"
| "perform env (Call_PlayerCall playerID) te = map_res snd (PlayerCall env te playerID)"
| "perform env (Call_PlayerAllin playerID) te = map_res snd (PlayerAllin env te playerID)"
| "perform env (Call_PlayerCheck playerID) te = map_res snd (PlayerCheck env te playerID)"
| "perform env (Call_PlayerFold playerID) te = map_res snd (PlayerFold env te playerID)"
| "perform env (Call_PlayerPass playerID) te = map_res snd (PlayerPass env te playerID)"
| "perform env (Callback_OpenGameReady participants) te = OnOpenGameReady env te participants"
| "perform env (Callback_GameStateUpdated gs) te = updateGameState env te gs"
| "perform env (Callback_GameErrorUpdated gs err) te = Ok (onGameErrorUpdated te gs err)"
| "perform env (Callback_AntesReceived gs) te = onAntesReceived env te gs"
| "perform env (Callback_BlindsReceived gs) te = onBlindsReceived env te gs"
| "perform env Callback_GameRoundClosed te = Ok (onGameRoundClosed te)"
| "perform env Callback_PlayersAutoInCompleted te = playersAutoInCompleted env te"

fun run :: "'c env \<Rightarrow> call list \<Rightarrow> 'c tableEngine \<Rightarrow> 'c tableEngine res" where
  "run env [] te = Ok te"
| "run env (c # rest) te =
     (case perform env c te of Panic \<Rightarrow> Panic | Ok te \<Rightarrow> run env rest te)"

definition gameCountOf :: "'c tableEngine \<Rightarrow> int" where
  "gameCountOf te = GameCount (State (table te))"

text \<open>The number of table-updated events in a log.\<close>

fun tableUpdates :: "event list \<Rightarrow> nat" where
  "tableUpdates [] = 0"
| "tableUpdates (TableUpdated eventName playerID # rest) = Suc (tableUpdates rest)"
| "tableUpdates (ev # rest) = tableUpdates rest"

text \<open>
  The player state that a row of the hand result belongs to:
  \<open>PlayerStates[GamePlayerIndexes[player.Idx]]\<close>, as a position.
\<close>

definition resultPlayer :: "int list \<Rightarrow> PlayerResult \<Rightarrow> nat" where
  "resultPlayer gamePlayerIndexes player = nat (gamePlayerIndexes ! nat (pr_Idx player))"

text \<open>
  The rows of a hand result are well formed for a table when every row names a game
  player of the hand (\<open>Idx\<close> within \<open>GamePlayerIndexes\<close>) whose entry is the position of one
  of the \<open>playerCount\<close> player states.
\<close>

definition resultRowsValid :: "int list \<Rightarrow> nat \<Rightarrow> PlayerResult list \<Rightarrow> bool" where
  "resultRowsValid gamePlayerIndexes playerCount results =
     list_all (\<lambda>player. 0 \<le> pr_Idx player \<and> pr_Idx player < int (length gamePlayerIndexes)
                 \<and> 0 \<le> gamePlayerIndexes ! nat (pr_Idx player)
                 \<and> gamePlayerIndexes ! nat (pr_Idx player) < int playerCount) results"

text \<open>
  What the statements on counters follow through the calls: the game count, the update
  serial and the number of table-updated events fired so far.
\<close>

definition counters :: "'c tableEngine \<Rightarrow> int \<times> int \<times> nat" where
  "counters te =
     (GameCount (State (table te)), UpdateSerial (table te), tableUpdates (emitted te))"

text \<open>The counters after one \<open>emitEvent\<close>.\<close>

definition bumped :: "int \<times> int \<times> nat \<Rightarrow> int \<times> int \<times> nat" where
  "bumped k = (case k of (gameCount, serial, updates) \<Rightarrow>
                 (gameCount, int64_wrap (serial + 1), Suc updates))"

section \<open>Example values\<close>

text \<open>
  A table of three seated players in the middle of a hand, and collaborators that accept
  every call. The examples that follow evaluate the engine on them.
\<close>

definition example_meta :: TableMeta where
  "example_meta =
     \<lparr> CompetitionID = ''c1'', Rule = CompetitionRule_Default, Mode = CompetitionMode_MTT,
       MaxDuration = 3, TableMaxSeatCount = 3, TableMinPlayerCount = 2, MinChipUnit = 10,
       ActionTime = 10 \<rparr>"

definition example_blind :: TableBlindState where
  "example_blind = \<lparr> Level = 1, Ante = 0, Dealer = 0, SB = 10, BB = 20, EndTime = 0 \<rparr>"

definition example_player :: "string \<Rightarrow> int \<Rightarrow> int \<Rightarrow> TablePlayerState" where
  "example_player playerID seat bankroll =
     \<lparr> PlayerID = playerID, Seat = seat, Positions = [], Bankroll = bankroll, IsIn = True,
       IsParticipated = True, GameStatistics = NewPlayerGameStatistics \<rparr>"

definition example_game_player :: "int \<Rightarrow> GamePlayer" where
  "example_game_player idx =
     \<lparr> gp_Idx = idx, gp_Positions = [], gp_Acted = False, gp_DidAction = [], gp_Fold = False,
       gp_AllowedActions = [], gp_Bankroll = 15000, gp_InitialStackSize = 15000,
       gp_StackSize = 15000, gp_Pot = 0, gp_Wager = 0, gp_Power = 0 \<rparr>"

definition example_gs :: GameState where
  "example_gs =
     \<lparr> gs_GameID = ''g1'',
       gs_Players = [example_game_player 0, example_game_player 1, example_game_player 2],
       gs_Status = \<lparr> gs_CurrentEvent = ''RoundStarted'', gs_Round = GameRound_Flop,
                     gs_CurrentPlayer = 0, gs_CurrentRaiser = 1, gs_CurrentWager = 0,
                     gs_MiniBet = 20 \<rparr>,
       gs_Result = Some [\<lparr> pr_Idx = 0, pr_Final = 15030 \<rparr>,
                         \<lparr> pr_Idx = 1, pr_Final = 0 \<rparr>,
                         \<lparr> pr_Idx = 2, pr_Final = 14970 \<rparr>] \<rparr>"

definition example_state :: TableState where
  "example_state =
     \<lparr> Status = TableStateStatus_TableGamePlaying,
       GameState = Some example_gs,
       PlayerStates = [example_player ''Fred'' 0 15000, example_player ''Chuck'' 1 15000,
                       example_player ''Lottie'' 2 15000],
       GamePlayerIndexes = [0, 1, 2],
       GameCount = 1,
       StartAt = 1000,
       BlindState = Some example_blind,
       CurrentDealerSeat = 0,
       CurrentSBSeat = 1,
       CurrentBBSeat = 2,
       SeatMap = [(0, 0), (1, 1), (2, 2)],
       NextBBOrderPlayerIDs = [],
       LastPlayerGameAction = None,
       CurrentActionEndAt = 0,
       GameBlindState = Some example_blind \<rparr>"

definition example_table :: Table where
  "example_table =
     \<lparr> ID = ''t1'', Meta = example_meta, State = example_state, UpdateAt = 0, UpdateSerial = 7 \<rparr>"

definition accept :: "unit game_move" where
  "accept c = ((Some example_gs, None), c)"

definition example_game :: "unit GameIface" where
  "example_game =
     \<lparr> NewGame = (\<lambda>opts c. c),
       game_GetGameState = (\<lambda>c. Some example_gs),
       game_Start = accept,
       game_Ready = (\<lambda>i. accept),
       game_Pay = (\<lambda>i chips. accept),
       game_Pass = (\<lambda>i. accept),
       game_Fold = (\<lambda>i. accept),
       game_Check = (\<lambda>i. accept),
       game_Call = (\<lambda>i. accept),
       game_Allin = (\<lambda>i. accept),
       game_Bet = (\<lambda>i chips. accept),
       game_Raise = (\<lambda>i chips. accept) \<rparr>"

definition example_seats :: "unit SeatManagerIface" where
  "example_seats =
     \<lparr> NewSeatManager = (\<lambda>n rule c. c),
       sm_IsInitPositions = (\<lambda>c. True),
       sm_InitPositions = (\<lambda>random c. (None, c)),
       sm_RotatePositions = (\<lambda>c. (None, c)),
       sm_IsPlayerActive = (\<lambda>playerID c. (True, None)),
       sm_CurrentDealerSeatID = (\<lambda>c. 1),
       sm_CurrentSBSeatID = (\<lambda>c. 2),
       sm_CurrentBBSeatID = (\<lambda>c. 0),
       sm_SeatActive = (\<lambda>c seatID. True),
       sm_AssignSeats = (\<lambda>seats c. (None, c)),
       sm_RandomAssignSeats = (\<lambda>ids c. (None, c)),
       sm_GetSeatID = (\<lambda>playerID c. (if playerID = ''Fred'' then 0
                                        else if playerID = ''Chuck'' then 1 else 2, None)),
       sm_JoinPlayers = (\<lambda>ids c. (None, c)),
       sm_UpdatePlayerHasChips = (\<lambda>playerID hasChips c. (None, c)),
       sm_RemoveSeats = (\<lambda>ids c. (None, c)) \<rparr>"

definition example_sync :: "unit SyncIface" where
  "example_sync =
     \<lparr> rg_Stop = (\<lambda>c. c),
       rg_SetTimeoutInterval = (\<lambda>seconds c. c),
       rg_ResetParticipants = (\<lambda>c. c),
       rg_Add = (\<lambda>i ready c. c),
       rg_Start = (\<lambda>c. c),
       rg_GetParticipantStates = (\<lambda>c i. None),
       rg_Ready = (\<lambda>i c. c),
       NewOpenGameManager = (\<lambda>c. c),
       ogm_Setup = (\<lambda>gameCount participants c. c),
       ogm_Ready = (\<lambda>playerID c. c),
       tb_NewTask = (\<lambda>seconds c. (False, c)),
       time_Now = (\<lambda>c. 1001),
       time_Sleep = (\<lambda>seconds c. c) \<rparr>"

definition example_lib :: LibIface where
  "example_lib =
     \<lparr> GetPlayer = (\<lambda>gs idx. at_index (gs_Players gs) idx),
       HasPosition = (\<lambda>gs idx pos. False),
       GameEventBySymbol = (\<lambda>symbol. Some (GameEvent_Other symbol)),
       GameEventSymbols = (\<lambda>ev. ''Started''),
       rank_GetWinners = (\<lambda>contributors. [0]),
       json_error = (\<lambda>t. None) \<rparr>"

definition example_env :: "unit env" where
  "example_env =
     \<lparr> game_if = example_game, sm_if = example_seats, sync_if = example_sync,
       lib_if = example_lib, updatePlayerPositions = (\<lambda>te seatCount players. players) \<rparr>"

definition example_engine :: "unit tableEngine" where
  "example_engine =
     \<lparr> options = \<lparr> GameContinueInterval = 1 \<rparr>, table = example_table, isReleased = False,
       emitted = [], collab = () \<rparr>"

text \<open>The same engine with chosen statistics for Fred, and with a chosen status.\<close>

definition with_stats :: "TablePlayerGameStatistics \<Rightarrow> unit tableEngine" where
  "with_stats s = modify_stats 0 (\<lambda>old. s) example_engine"

definition with_status :: "string \<Rightarrow> unit tableEngine" where
  "with_status st = set_state (\<lambda>s. s\<lparr> Status := st \<rparr>) example_engine"


text \<open>The table between two hands, in a break of the blind schedule.\<close>

definition break_engine :: "int \<Rightarrow> int \<Rightarrow> unit tableEngine" where
  "break_engine sb bb =
     set_state (\<lambda>s. s\<lparr> Status := TableStateStatus_TablePausing,
                        GameState := None,
                        GamePlayerIndexes := [],
                        BlindState := Some \<lparr> Level = - 1, Ante = 0, Dealer = 0, SB = sb, BB = bb,
                                             EndTime = 0 \<rparr> \<rparr>) example_engine"

text \<open>The example engine after \<open>startGame\<close>, after \<open>settleGame\<close>, and what \<open>settleGame\<close> returns.\<close>

definition started_engine :: "unit tableEngine" where
  "started_engine =
     (case startGame example_env example_engine of Ok (err, te) \<Rightarrow> te | Panic \<Rightarrow> example_engine)"

definition settled_engine :: "unit tableEngine" where
  "settled_engine =
     (case settleGame example_env example_engine of
        Ok (alivePlayers, te) \<Rightarrow> te
      | Panic \<Rightarrow> example_engine)"

text \<open>The example table between two hands, ready for the next one.\<close>

definition standby_engine :: "unit tableEngine" where
  "standby_engine =
     set_state (\<lambda>s. s\<lparr> Status := TableStateStatus_TableGameStandby,
                        GameState := None,
                        GamePlayerIndexes := [] \<rparr>) example_engine"

section \<open>Evaluation of the example values\<close>

lemmas example_defs =
  example_engine_def example_table_def example_state_def example_env_def example_game_def
  example_lib_def example_sync_def example_seats_def example_player_def example_gs_def
  example_game_player_def example_meta_def example_blind_def accept_def with_stats_def
  with_status_def NewPlayerGameStatistics_def

lemmas state_defs =
  modify_stats_def modify_player_def set_players_def set_state_def stats_of_def

lemmas move_defs =
  resolveGameMove_def FindGamePlayerIdx_def validateGameMove_def
  FindPlayerIndexFromGamePlayerIndex_def bind_res_def at_index_def recordGameAction_def
  createPlayerGameAction_def playerStateAt_def currentGameRound_def isCurrentRaiser_def
  emitGamePlayerActionEvent_def UnsetValue_def TableStateStatus_TableGamePlaying_def

section \<open>The 3-Bet flag\<close>

lemma filter_at_most_one:
  "(\<And>i j. i < length xs \<Longrightarrow> j < length xs \<Longrightarrow> P (xs ! i) \<Longrightarrow> P (xs ! j) \<Longrightarrow> i = j)
   \<Longrightarrow> length (filter P xs) \<le> 1"
proof (induction xs)
  case Nil
  then show ?case by simp
next
  case (Cons x xs)
  have tail: "length (filter P xs) \<le> 1"
  proof (rule Cons.IH)
    fix i j assume "i < length xs" "j < length xs" "P (xs ! i)" "P (xs ! j)"
    then have "Suc i = Suc j" using Cons.prems [of "Suc i" "Suc j"] by simp
    then show "i = j" by simp
  qed
  show ?case
  proof (cases "P x")
    case False
    then show ?thesis using tail by simp
  next
    case True
    have "filter P xs = []"
    proof (rule ccontr)
      assume "filter P xs \<noteq> []"
      then obtain y where "y \<in> set xs" "P y" by (metis filter_False)
      then obtain i where "i < length xs" "xs ! i = y" by (auto simp: in_set_conv_nth)
      then have "0 = Suc i" using Cons.prems [of 0 "Suc i"] True \<open>P y\<close> by simp
      then show False by simp
    qed
    then show ?thesis using True by simp
  qed
qed

lemma Is3B_set_Is3B [simp]: "Is3B (GameStatistics (set_Is3B b p)) = b"
  by (simp add: set_Is3B_def)

lemma set_Is3B_twice [simp]: "set_Is3B b (set_Is3B c p) = set_Is3B b p"
  by (simp add: set_Is3B_def)

lemma Is3BChance_set_Is3B [simp]:
  "Is3BChance (GameStatistics (set_Is3B b p)) = Is3BChance (GameStatistics p)"
  by (simp add: set_Is3B_def)

lemma PlayerStates_set_players [simp]: "PlayerStates (State (table (set_players ps te))) = ps"
  by (simp add: set_players_def set_state_def)

lemma no_three_bet_filter:
  "\<not> list_ex (\<lambda>p. Is3B (GameStatistics p)) ps \<Longrightarrow> filter (\<lambda>p. Is3B (GameStatistics p)) ps = []"
  by (induction ps) auto

lemma cleared_filter: "filter (\<lambda>p. Is3B (GameStatistics p)) (map (set_Is3B False) ps) = []"
  by (induction ps) auto

lemma marked_filter:
  "length (filter (\<lambda>p. Is3B (GameStatistics p))
     (map (\<lambda>(i, p). set_Is3B (int i = k) p) (enumerate 0 ps))) \<le> 1"
  by (rule filter_at_most_one) (simp add: nth_enumerate_eq)

lemma refreshThreeBet_at_most_one:
  "length (filter (\<lambda>p. Is3B (GameStatistics p))
     (PlayerStates (State (table (refreshThreeBet playerState playerIdx te))))) \<le> 1"
  unfolding refreshThreeBet_def Let_def
  using marked_filter cleared_filter no_three_bet_filter [of "PlayerStates (State (table te))"]
  by (auto simp del: filter_map)

lemma refreshThreeBet_length:
  "length (PlayerStates (State (table (refreshThreeBet playerState playerIdx te))))
   = length (PlayerStates (State (table te)))"
  by (simp add: refreshThreeBet_def Let_def)

lemma refreshThreeBet_others:
  "i < length (PlayerStates (State (table te))) \<Longrightarrow>
   set_Is3B b (PlayerStates (State (table (refreshThreeBet playerState playerIdx te))) ! i)
   = set_Is3B b (PlayerStates (State (table te)) ! i)"
  by (simp add: refreshThreeBet_def Let_def nth_enumerate_eq)

lemma refreshThreeBet_raiser:
  "playerState < length (PlayerStates (State (table te))) \<Longrightarrow>
   Is3BChance (GameStatistics (PlayerStates (State (table te)) ! playerState)) \<Longrightarrow>
   i < length (PlayerStates (State (table te))) \<Longrightarrow>
   Is3B (GameStatistics
     (PlayerStates (State (table (refreshThreeBet playerState (int playerState) te))) ! i))
   = (i = playerState)"
  by (simp add: refreshThreeBet_def Let_def nth_enumerate_eq)

lemma refreshThreeBet_frame:
  "refreshThreeBet playerState playerIdx te
   = set_players (PlayerStates (State (table (refreshThreeBet playerState playerIdx te)))) te"
  by (simp add: refreshThreeBet_def Let_def)

text \<open>
  C8. After \<open>refreshThreeBet\<close> at most one player of the table has \<open>Is3B\<close> set. If the
  raiser (the player at \<open>playerIdx\<close>, whose state is passed along) had \<open>Is3BChance\<close>,
  the raiser is the one player with \<open>Is3B\<close> and the flag of every other player is
  cleared. The routine changes nothing but \<open>Is3B\<close> flags: the list of players keeps its
  length, every player state agrees with the one before in all fields other than \<open>Is3B\<close>
  (bankroll and all other statistics included), and the rest of the engine is as before.
\<close>

theorem refreshThreeBet_single_three_bettor:
  "let before = PlayerStates (State (table te));
       after = PlayerStates (State (table (refreshThreeBet playerState playerIdx te)))
   in length (filter (\<lambda>p. Is3B (GameStatistics p)) after) \<le> 1
    \<and> length after = length before
    \<and> (\<forall>i < length before. \<forall>b. set_Is3B b (after ! i) = set_Is3B b (before ! i))
    \<and> refreshThreeBet playerState playerIdx te = set_players after te
    \<and> (playerState < length before \<and> playerIdx = int playerState
          \<and> Is3BChance (GameStatistics (before ! playerState))
        \<longrightarrow> (\<forall>i < length before. Is3B (GameStatistics (after ! i)) = (i = playerState)))"
  unfolding Let_def
  using refreshThreeBet_at_most_one [of playerState playerIdx te]
    refreshThreeBet_length [of playerState playerIdx te]
    refreshThreeBet_frame [of playerState playerIdx te]
  by (auto simp: refreshThreeBet_others refreshThreeBet_raiser)

text \<open>
  Chuck holds the 3-Bet flag and Lottie, with a 3-Bet chance, raises: afterwards Lottie
  alone holds it.
\<close>

theorem refreshThreeBet_single_three_bettor_witness:
  "let te = modify_stats 2 (\<lambda>s. s\<lparr> Is3BChance := True \<rparr>)
              (modify_stats 1 (\<lambda>s. s\<lparr> Is3B := True \<rparr>) example_engine);
       after = PlayerStates (State (table (refreshThreeBet 2 2 te)))
   in length (PlayerStates (State (table te))) = 3
    \<and> Is3BChance (GameStatistics (PlayerStates (State (table te)) ! 2))
    \<and> Is3B (GameStatistics (PlayerStates (State (table te)) ! 1))
    \<and> length (filter (\<lambda>p. Is3B (GameStatistics p)) after) \<le> 1
    \<and> \<not> Is3B (GameStatistics (after ! 0))
    \<and> \<not> Is3B (GameStatistics (after ! 1))
    \<and> Is3B (GameStatistics (after ! 2))"
proof -
  define te where "te = modify_stats 2 (\<lambda>s. s\<lparr> Is3BChance := True \<rparr>)
              (modify_stats 1 (\<lambda>s. s\<lparr> Is3B := True \<rparr>) example_engine)"
  have len: "length (PlayerStates (State (table te))) = 3"
    by (simp add: te_def state_defs example_defs)
  have chance: "Is3BChance (GameStatistics (PlayerStates (State (table te)) ! 2))"
    by (simp add: te_def state_defs example_defs)
  have prior: "Is3B (GameStatistics (PlayerStates (State (table te)) ! 1))"
    by (simp add: te_def state_defs example_defs)
  let ?after = "PlayerStates (State (table (refreshThreeBet 2 2 te)))"
  have main: "length (filter (\<lambda>p. Is3B (GameStatistics p)) ?after) \<le> 1
      \<and> (\<forall>i < 3. Is3B (GameStatistics (?after ! i)) = (i = 2))"
    using refreshThreeBet_single_three_bettor [where te = te and playerState = 2 and playerIdx = 2]
      len chance
    unfolding Let_def by simp
  then have "\<not> Is3B (GameStatistics (?after ! 0))" "\<not> Is3B (GameStatistics (?after ! 1))"
    "Is3B (GameStatistics (?after ! 2))"
    by simp_all
  then show ?thesis
    using main len chance prior unfolding Let_def te_def [symmetric] by simp
qed

section \<open>Fold to C-Bet\<close>

text \<open>
  C1. \<open>PlayerFold\<close> sets \<open>IsFtCB\<close> under the guard \<open>IsFt3BChance\<close>, the guard of the
  statement before it, and never reads \<open>IsFtCBChance\<close>. Fred folds with success. With
  \<open>IsFtCBChance\<close> set and \<open>IsFt3BChance\<close> clear, \<open>IsFtCB\<close> stays false; with
  \<open>IsFt3BChance\<close> set and \<open>IsFtCBChance\<close> clear, \<open>IsFtCB\<close> becomes true.
\<close>

theorem PlayerFold_FtCB_wrong_guard:
  "map_res (\<lambda>r. (fst r, IsFtCB (stats_of (snd r) 0)))
     (PlayerFold example_env
        (with_stats (NewPlayerGameStatistics\<lparr> IsFtCBChance := True \<rparr>)) ''Fred'')
   = Ok (None, False)
   \<and> map_res (\<lambda>r. (fst r, IsFtCB (stats_of (snd r) 0)))
     (PlayerFold example_env
        (with_stats (NewPlayerGameStatistics\<lparr> IsFt3BChance := True \<rparr>)) ''Fred'')
   = Ok (None, True)"
  by (simp add: PlayerFold_def move_defs state_defs example_defs Let_def)

section \<open>Validation of game actions\<close>

lemma resolveGameMove_not_playing:
  "FindGamePlayerIdx (table te) playerID = Ok gamePlayerIdx \<Longrightarrow>
   Status (State (table te)) \<noteq> TableStateStatus_TableGamePlaying \<Longrightarrow>
   resolveGameMove te playerID = Ok (Inl ErrTablePlayerInvalidGameAction)"
  by (simp add: resolveGameMove_def validateGameMove_def bind_res_def)

lemma resolveGameMove_unknown:
  "FindGamePlayerIdx (table te) playerID = Ok UnsetValue \<Longrightarrow>
   Status (State (table te)) = TableStateStatus_TableGamePlaying \<Longrightarrow>
   resolveGameMove te playerID = Ok (Inl ErrTablePlayerNotFound)"
  by (simp add: resolveGameMove_def validateGameMove_def bind_res_def)

lemma game_action_rejected:
  assumes "resolveGameMove te playerID = Ok (Inl err)"
  shows "PlayerReady env te playerID = Ok (Some err, te)"
    and "PlayerPay env te playerID chips = Ok (Some err, te)"
    and "PlayerBet env te playerID chips = Ok (Some err, te)"
    and "PlayerRaise env te playerID chips = Ok (Some err, te)"
    and "PlayerCall env te playerID = Ok (Some err, te)"
    and "PlayerAllin env te playerID = Ok (Some err, te)"
    and "PlayerCheck env te playerID = Ok (Some err, te)"
    and "PlayerFold env te playerID = Ok (Some err, te)"
    and "PlayerPass env te playerID = Ok (Some err, te)"
  using assms
  by (simp_all add: PlayerReady_def PlayerPay_def PlayerBet_def PlayerRaise_def PlayerCall_def
      PlayerAllin_def PlayerCheck_def PlayerFold_def PlayerPass_def bind_res_def)

text \<open>
  C3, as the code has it. \<open>validateGameMove\<close> checks the table status first. Each of the
  nine game actions, called while the status is not Playing, fails with
  \<open>InvalidGameAction\<close> whether the player is known or not; called while the status is
  Playing for a player without a game-player index, it fails with \<open>PlayerNotFound\<close>. The
  engine is left as it was in both cases. (The lookup of the game-player index comes
  first and is assumed to return.)
\<close>

theorem game_actions_validation:
  assumes "FindGamePlayerIdx (table te) playerID = Ok gamePlayerIdx"
  shows "(Status (State (table te)) \<noteq> TableStateStatus_TableGamePlaying \<longrightarrow>
            PlayerReady env te playerID = Ok (Some ErrTablePlayerInvalidGameAction, te)
          \<and> PlayerPay env te playerID chips = Ok (Some ErrTablePlayerInvalidGameAction, te)
          \<and> PlayerBet env te playerID chips = Ok (Some ErrTablePlayerInvalidGameAction, te)
          \<and> PlayerRaise env te playerID chips = Ok (Some ErrTablePlayerInvalidGameAction, te)
          \<and> PlayerCall env te playerID = Ok (Some ErrTablePlayerInvalidGameAction, te)
          \<and> PlayerAllin env te playerID = Ok (Some ErrTablePlayerInvalidGameAction, te)
          \<and> PlayerCheck env te playerID = Ok (Some ErrTablePlayerInvalidGameAction, te)
          \<and> PlayerFold env te playerID = Ok (Some ErrTablePlayerInvalidGameAction, te)
          \<and> PlayerPass env te playerID = Ok (Some ErrTablePlayerInvalidGameAction, te))
       \<and> (Status (State (table te)) = TableStateStatus_TableGamePlaying
            \<and> gamePlayerIdx = UnsetValue \<longrightarrow>
            PlayerReady env te playerID = Ok (Some ErrTablePlayerNotFound, te)
          \<and> PlayerPay env te playerID chips = Ok (Some ErrTablePlayerNotFound, te)
          \<and> PlayerBet env te playerID chips = Ok (Some ErrTablePlayerNotFound, te)
          \<and> PlayerRaise env te playerID chips = Ok (Some ErrTablePlayerNotFound, te)
          \<and> PlayerCall env te playerID = Ok (Some ErrTablePlayerNotFound, te)
          \<and> PlayerAllin env te playerID = Ok (Some ErrTablePlayerNotFound, te)
          \<and> PlayerCheck env te playerID = Ok (Some ErrTablePlayerNotFound, te)
          \<and> PlayerFold env te playerID = Ok (Some ErrTablePlayerNotFound, te)
          \<and> PlayerPass env te playerID = Ok (Some ErrTablePlayerNotFound, te))"
proof (intro conjI impI)
  assume "Status (State (table te)) \<noteq> TableStateStatus_TableGamePlaying"
  then have r: "resolveGameMove te playerID = Ok (Inl ErrTablePlayerInvalidGameAction)"
    using assms by (rule resolveGameMove_not_playing [rotated])
  show "PlayerReady env te playerID = Ok (Some ErrTablePlayerInvalidGameAction, te)"
    "PlayerPay env te playerID chips = Ok (Some ErrTablePlayerInvalidGameAction, te)"
    "PlayerBet env te playerID chips = Ok (Some ErrTablePlayerInvalidGameAction, te)"
    "PlayerRaise env te playerID chips = Ok (Some ErrTablePlayerInvalidGameAction, te)"
    "PlayerCall env te playerID = Ok (Some ErrTablePlayerInvalidGameAction, te)"
    "PlayerAllin env te playerID = Ok (Some ErrTablePlayerInvalidGameAction, te)"
    "PlayerCheck env te playerID = Ok (Some ErrTablePlayerInvalidGameAction, te)"
    "PlayerFold env te playerID = Ok (Some ErrTablePlayerInvalidGameAction, te)"
    "PlayerPass env te playerID = Ok (Some ErrTablePlayerInvalidGameAction, te)"
    by (rule game_action_rejected [OF r])+
next
  assume "Status (State (table te)) = TableStateStatus_TableGamePlaying \<and> gamePlayerIdx = UnsetValue"
  then have r: "resolveGameMove te playerID = Ok (Inl ErrTablePlayerNotFound)"
    using assms by (simp add: resolveGameMove_unknown)
  show "PlayerReady env te playerID = Ok (Some ErrTablePlayerNotFound, te)"
    "PlayerPay env te playerID chips = Ok (Some ErrTablePlayerNotFound, te)"
    "PlayerBet env te playerID chips = Ok (Some ErrTablePlayerNotFound, te)"
    "PlayerRaise env te playerID chips = Ok (Some ErrTablePlayerNotFound, te)"
    "PlayerCall env te playerID = Ok (Some ErrTablePlayerNotFound, te)"
    "PlayerAllin env te playerID = Ok (Some ErrTablePlayerNotFound, te)"
    "PlayerCheck env te playerID = Ok (Some ErrTablePlayerNotFound, te)"
    "PlayerFold env te playerID = Ok (Some ErrTablePlayerNotFound, te)"
    "PlayerPass env te playerID = Ok (Some ErrTablePlayerNotFound, te)"
    by (rule game_action_rejected [OF r])+
qed

text \<open>
  Nobody called Jeffrey takes part in the hand. On the table in standby his fold fails
  with \<open>InvalidGameAction\<close>; on the table that is playing it fails with \<open>PlayerNotFound\<close>.
\<close>

theorem game_actions_validation_witness:
  "FindGamePlayerIdx (table (with_status TableStateStatus_TableGameStandby)) ''Jeffrey''
     = Ok UnsetValue
   \<and> Status (State (table (with_status TableStateStatus_TableGameStandby)))
       \<noteq> TableStateStatus_TableGamePlaying
   \<and> PlayerFold example_env (with_status TableStateStatus_TableGameStandby) ''Jeffrey''
       = Ok (Some ErrTablePlayerInvalidGameAction, with_status TableStateStatus_TableGameStandby)
   \<and> FindGamePlayerIdx (table example_engine) ''Jeffrey'' = Ok UnsetValue
   \<and> Status (State (table example_engine)) = TableStateStatus_TableGamePlaying
   \<and> PlayerFold example_env example_engine ''Jeffrey''
       = Ok (Some ErrTablePlayerNotFound, example_engine)"
proof -
  have f1: "FindGamePlayerIdx (table (with_status TableStateStatus_TableGameStandby)) ''Jeffrey''
     = Ok UnsetValue"
    by (simp add: FindGamePlayerIdx_def at_index_def state_defs example_defs)
  have s1: "Status (State (table (with_status TableStateStatus_TableGameStandby)))
       \<noteq> TableStateStatus_TableGamePlaying"
    by (simp add: state_defs example_defs TableStateStatus_TableGameStandby_def
        TableStateStatus_TableGamePlaying_def)
  have f2: "FindGamePlayerIdx (table example_engine) ''Jeffrey'' = Ok UnsetValue"
    by (simp add: FindGamePlayerIdx_def at_index_def state_defs example_defs)
  have s2: "Status (State (table example_engine)) = TableStateStatus_TableGamePlaying"
    by (simp add: example_defs)
  show ?thesis
    using f1 s1 f2 s2
      game_actions_validation [OF f1, where env = example_env and chips = 0]
      game_actions_validation [OF f2, where env = example_env and chips = 0]
    by simp
qed

text \<open>
  The claim as written has an unknown player fail with \<open>PlayerNotFound\<close> whatever the
  status. On the table in standby the unknown player's fold fails with
  \<open>InvalidGameAction\<close>.
\<close>

theorem unknown_player_not_playing_counterexample:
  "FindGamePlayerIdx (table (with_status TableStateStatus_TableGameStandby)) ''Jeffrey''
     = Ok UnsetValue
   \<and> map_res fst (PlayerFold example_env (with_status TableStateStatus_TableGameStandby) ''Jeffrey'')
       = Ok (Some ErrTablePlayerInvalidGameAction)
   \<and> map_res fst (PlayerFold example_env (with_status TableStateStatus_TableGameStandby) ''Jeffrey'')
       \<noteq> Ok (Some ErrTablePlayerNotFound)"
  by (simp add: PlayerFold_def move_defs state_defs example_defs
      TableStateStatus_TableGameStandby_def)

section \<open>Opening a hand twice, and in a break\<close>

lemmas status_defs =
  TableStateStatus_TableGameStandby_def TableStateStatus_TableGamePlaying_def
  TableStateStatus_TableClosed_def TableStateStatus_TableCreated_def
  TableStateStatus_TablePausing_def TableStateStatus_TableBalancing_def
  TableStateStatus_TableGameOpened_def TableStateStatus_TableGameSettled_def

lemma unit_collab [simp]: "te\<lparr> collab := () \<rparr> = te" for te :: "unit tableEngine"
  by simp

text \<open>
  C10. With a hand state present, \<open>tableGameOpen\<close> returns nil at once: the engine, its
  table, its game count and the seat manager among its collaborators are as before.
\<close>

theorem tableGameOpen_already_opened:
  "GameState (State (table te)) = Some gs \<Longrightarrow> tableGameOpen env te = Ok (None, te)"
  by (simp add: tableGameOpen_def)

theorem tableGameOpen_already_opened_witness:
  "GameState (State (table example_engine)) = Some example_gs
   \<and> tableGameOpen example_env example_engine = Ok (None, example_engine)"
proof -
  have g: "GameState (State (table example_engine)) = Some example_gs"
    by (simp add: example_engine_def example_table_def example_state_def)
  show ?thesis using g tableGameOpen_already_opened [OF g, of example_env] by simp
qed

lemma openGame_breaking:
  "BlindState (State t) = Some b \<Longrightarrow> Level b = - 1 \<Longrightarrow> 0 < SB b \<Longrightarrow> 0 < BB b \<Longrightarrow>
   openGame env te t = Ok ((t, Some ErrTableOpenGameFailedInBlindBreakingLevel), te)"
  by (simp add: openGame_def IsSet_def IsBreaking_def)

text \<open>
  C2, as the code has it. \<open>openGame\<close> asks \<open>IsSet\<close> before \<open>IsBreaking\<close>, and \<open>IsSet\<close>
  wants the small and the big blind positive. With the blind level \<open>-1\<close> and both blinds
  positive, \<open>openGame\<close> returns the table it was given with
  \<open>OpenGameFailedInBlindBreakingLevel\<close>, and \<open>tableGameOpen\<close> returns nil and leaves the
  engine as it was: table, game count, event log and collaborators.
\<close>

theorem tableGameOpen_in_break:
  assumes "BlindState (State (table te)) = Some b" and "Level b = - 1"
    and "0 < SB b" and "0 < BB b"
  shows "openGame env te (table te)
           = Ok ((table te, Some ErrTableOpenGameFailedInBlindBreakingLevel), te)
         \<and> tableGameOpen env te = Ok (None, te)"
  using openGame_breaking [OF assms, of env te]
  by (simp add: tableGameOpen_def split: option.splits)

theorem tableGameOpen_in_break_witness:
  "BlindState (State (table (break_engine 10 20)))
     = Some \<lparr> Level = - 1, Ante = 0, Dealer = 0, SB = 10, BB = 20, EndTime = 0 \<rparr>
   \<and> openGame example_env (break_engine 10 20) (table (break_engine 10 20))
       = Ok ((table (break_engine 10 20), Some ErrTableOpenGameFailedInBlindBreakingLevel),
             break_engine 10 20)
   \<and> tableGameOpen example_env (break_engine 10 20) = Ok (None, break_engine 10 20)"
proof -
  have b: "BlindState (State (table (break_engine 10 20)))
     = Some \<lparr> Level = - 1, Ante = 0, Dealer = 0, SB = 10, BB = 20, EndTime = 0 \<rparr>"
    by (simp add: break_engine_def set_state_def)
  show ?thesis
    using b tableGameOpen_in_break [OF b, of example_env] by simp
qed

text \<open>
  A break whose blind amounts are zero: the level is \<open>-1\<close>, yet \<open>openGame\<close> reports
  \<open>OpenGameFailed\<close>, and \<open>tableGameOpen\<close> retries ten times and returns that error.
\<close>

theorem tableGameOpen_break_unset_counterexample:
  "map_option Level (BlindState (State (table (break_engine 0 0)))) = Some (- 1)
   \<and> openGame example_env (break_engine 0 0) (table (break_engine 0 0))
       = Ok ((table (break_engine 0 0), Some ErrTableOpenGameFailed), break_engine 0 0)
   \<and> tableGameOpen example_env (break_engine 0 0)
       = Ok (Some ErrTableOpenGameFailed, break_engine 0 0)"
proof -
  have o: "openGame example_env (break_engine 0 0) (table (break_engine 0 0))
       = Ok ((table (break_engine 0 0), Some ErrTableOpenGameFailed), break_engine 0 0)"
    by (simp add: openGame_def IsSet_def break_engine_def set_state_def)
  have s: "Status (State (table (break_engine 0 0))) = TableStateStatus_TablePausing"
    by (simp add: break_engine_def set_state_def)
  have r: "openGameRetry example_env n ErrTableOpenGameFailed (break_engine 0 0)
     = Ok (Exhausted ErrTableOpenGameFailed (break_engine 0 0))" for n
    by (induction n) (simp_all add: s o status_defs)
  have g: "GameState (State (table (break_engine 0 0))) = None"
    by (simp add: break_engine_def set_state_def)
  have l: "map_option Level (BlindState (State (table (break_engine 0 0)))) = Some (- 1)"
    by (simp add: break_engine_def set_state_def)
  show ?thesis
    by (simp add: tableGameOpen_def o r g l)
qed

section \<open>Joining twice, and settlement acknowledgements of strangers\<close>

lemma FindPlayerIdx_from_range:
  "FindPlayerIdx_from i ps playerID \<noteq> UnsetValue \<Longrightarrow> 0 \<le> i \<Longrightarrow>
   i \<le> FindPlayerIdx_from i ps playerID \<and> FindPlayerIdx_from i ps playerID < i + int (length ps)
   \<and> PlayerID (ps ! nat (FindPlayerIdx_from i ps playerID - i)) = playerID"
proof (induction ps arbitrary: i)
  case Nil
  then show ?case by simp
next
  case (Cons p ps)
  show ?case
  proof (cases "PlayerID p = playerID")
    case True
    then show ?thesis by simp
  next
    case False
    with Cons.prems have n: "FindPlayerIdx_from (i + 1) ps playerID \<noteq> UnsetValue" by simp
    from Cons.IH [OF n] Cons.prems(2)
    have ih: "i + 1 \<le> FindPlayerIdx_from (i + 1) ps playerID"
      "FindPlayerIdx_from (i + 1) ps playerID < i + 1 + int (length ps)"
      "PlayerID (ps ! nat (FindPlayerIdx_from (i + 1) ps playerID - (i + 1))) = playerID"
      by simp_all
    have "nat (FindPlayerIdx_from (i + 1) ps playerID - i)
        = Suc (nat (FindPlayerIdx_from (i + 1) ps playerID - (i + 1)))"
      using ih(1) by simp
    then show ?thesis using False ih by simp
  qed
qed

lemma FindPlayerIdx_range:
  "FindPlayerIdx t playerID \<noteq> UnsetValue \<Longrightarrow>
   0 \<le> FindPlayerIdx t playerID
   \<and> nat (FindPlayerIdx t playerID) < length (PlayerStates (State t))
   \<and> PlayerID (PlayerStates (State t) ! nat (FindPlayerIdx t playerID)) = playerID"
  using FindPlayerIdx_from_range [of 0 "PlayerStates (State t)" playerID]
  by (auto simp: FindPlayerIdx_def nat_less_iff)

lemma FindPlayerIdx_from_cong:
  "map PlayerID ps = map PlayerID qs \<Longrightarrow>
   FindPlayerIdx_from i ps playerID = FindPlayerIdx_from i qs playerID"
proof (induction ps arbitrary: qs i)
  case Nil
  then show ?case by simp
next
  case (Cons p ps)
  then obtain q qs' where "qs = q # qs'" by (cases qs) auto
  with Cons show ?case by auto
qed

lemma map_PlayerID_update:
  assumes "PlayerID q = PlayerID (ps ! i)"
  shows "map PlayerID (ps[i := q]) = map PlayerID ps"
proof (cases "i < length ps")
  case True
  with assms show ?thesis
    by (intro nth_equalityI) (auto simp: nth_list_update)
next
  case False
  then have "length ps \<le> i" by simp
  then show ?thesis by (simp add: list_update_beyond)
qed

lemma PlayerJoin_already_in:
  assumes "FindPlayerIdx (table te) playerID \<noteq> UnsetValue"
    and "Seat (PlayerStates (State (table te)) ! nat (FindPlayerIdx (table te) playerID)) \<noteq> UnsetValue"
    and "IsIn (PlayerStates (State (table te)) ! nat (FindPlayerIdx (table te) playerID))"
  shows "PlayerJoin env te playerID = (None, te)"
  using assms by (simp add: PlayerJoin_def Let_def)

lemma table_emitEvent_State [simp]: "State (table (emitEvent a b te)) = State (table te)"
  by (simp add: emitEvent_def)

lemma PlayerJoin_twice:
  assumes "PlayerJoin env te playerID = (None, te')"
  shows "PlayerJoin env te' playerID = (None, te')"
proof -
  let ?i = "FindPlayerIdx (table te) playerID"
  let ?ps = "PlayerStates (State (table te))"
  from assms have found: "?i \<noteq> UnsetValue"
    by (auto simp: PlayerJoin_def Let_def split: if_splits)
  from assms found have seat: "Seat (?ps ! nat ?i) \<noteq> UnsetValue"
    by (auto simp: PlayerJoin_def Let_def split: if_splits)
  have range: "nat ?i < length ?ps" using FindPlayerIdx_range [OF found] by simp
  show ?thesis
  proof (cases "IsIn (?ps ! nat ?i)")
    case True
    with assms found seat have "te' = te" by (simp add: PlayerJoin_def Let_def)
    then show ?thesis using PlayerJoin_already_in [OF found seat True] by simp
  next
    case False
    let ?ps' = "?ps[nat ?i := (?ps ! nat ?i)\<lparr> IsIn := True \<rparr>]"
    from assms found seat False have ps': "PlayerStates (State (table te')) = ?ps'"
      by (auto simp: PlayerJoin_def Let_def modify_player_def set_players_def set_state_def
          split: option.splits if_splits prod.splits)
    have ids: "map PlayerID ?ps' = map PlayerID ?ps"
      by (rule map_PlayerID_update) simp
    have same: "FindPlayerIdx (table te') playerID = ?i"
      using FindPlayerIdx_from_cong [OF ids] by (simp add: FindPlayerIdx_def ps')
    show ?thesis
    proof (rule PlayerJoin_already_in)
      show "FindPlayerIdx (table te') playerID \<noteq> UnsetValue" using same found by simp
      show "Seat (PlayerStates (State (table te')) ! nat (FindPlayerIdx (table te') playerID)) \<noteq> UnsetValue"
        using same seat range by (simp add: ps')
      show "IsIn (PlayerStates (State (table te')) ! nat (FindPlayerIdx (table te') playerID))"
        using same range by (simp add: ps')
    qed
  qed
qed

text \<open>
  C9. \<open>PlayerJoin\<close> for a player who has joined (found in the player list, seated,
  \<open>IsIn\<close> set) returns nil and leaves the engine as it was. A player is seated when
  \<open>PlayerJoin\<close> sets \<open>IsIn\<close>, so a second \<open>PlayerJoin\<close> after a successful one is
  such a call: it returns nil and changes nothing. \<open>PlayerSettlementFinish\<close> for an id
  that is not in the player list leaves the engine as it was; it returns
  \<open>PlayerNotFound\<close>.
\<close>

theorem join_and_settlement_finish_noops:
  "(FindPlayerIdx (table te) playerID \<noteq> UnsetValue
      \<and> Seat (PlayerStates (State (table te)) ! nat (FindPlayerIdx (table te) playerID)) \<noteq> UnsetValue
      \<and> IsIn (PlayerStates (State (table te)) ! nat (FindPlayerIdx (table te) playerID))
    \<longrightarrow> PlayerJoin env te playerID = (None, te))
   \<and> (PlayerJoin env te playerID = (None, te') \<longrightarrow> PlayerJoin env te' playerID = (None, te'))
   \<and> (FindPlayerIdx (table te) unknownID = UnsetValue
    \<longrightarrow> PlayerSettlementFinish env te unknownID = (Some ErrTablePlayerNotFound, te))"
  using PlayerJoin_already_in [of te playerID env] PlayerJoin_twice [of env te playerID te']
  by (simp add: PlayerSettlementFinish_def)


theorem join_and_settlement_finish_noops_witness:
  "FindPlayerIdx (table example_engine) ''Fred'' = 0
   \<and> Seat (PlayerStates (State (table example_engine)) ! 0) = 0
   \<and> IsIn (PlayerStates (State (table example_engine)) ! 0)
   \<and> PlayerJoin example_env example_engine ''Fred'' = (None, example_engine)
   \<and> FindPlayerIdx (table example_engine) ''Jeffrey'' = UnsetValue
   \<and> PlayerSettlementFinish example_env example_engine ''Jeffrey''
       = (Some ErrTablePlayerNotFound, example_engine)"
proof -
  have f: "FindPlayerIdx (table example_engine) ''Fred'' = 0"
    by (simp add: FindPlayerIdx_def example_defs)
  have s: "Seat (PlayerStates (State (table example_engine)) ! 0) = 0"
    by (simp add: example_defs)
  have i: "IsIn (PlayerStates (State (table example_engine)) ! 0)"
    by (simp add: example_defs)
  have u: "FindPlayerIdx (table example_engine) ''Jeffrey'' = UnsetValue"
    by (simp add: FindPlayerIdx_def example_defs)
  show ?thesis
    using f s i u
      join_and_settlement_finish_noops [where te = example_engine and playerID = "''Fred''"
        and unknownID = "''Jeffrey''" and env = example_env and te' = example_engine]
    by (simp add: UnsetValue_def)
qed

section \<open>Status and hand state through the stages\<close>

lemma State_set_state [simp]: "State (table (set_state f te)) = f (State (table te))"
  by (simp add: set_state_def)

lemma State_set_players [simp]:
  "State (table (set_players ps te)) = (State (table te))\<lparr> PlayerStates := ps \<rparr>"
  by (simp add: set_players_def)

lemma State_emitTableStateEvent [simp]: "State (table (emitTableStateEvent e te)) = State (table te)"
  by (simp add: emitTableStateEvent_def)

lemma State_emitAutoGameOpenEnd [simp]: "State (table (emitAutoGameOpenEnd a b te)) = State (table te)"
  by (simp add: emitAutoGameOpenEnd_def)

lemma State_collab_update [simp]: "State (table (te\<lparr> collab := c \<rparr>)) = State (table te)"
  by simp

lemma settleGame_status:
  assumes "settleGame env te = Ok (alivePlayers, te')"
  shows "Status (State (table te')) = TableStateStatus_TableGameSettled
         \<and> GameState (State (table te')) = GameState (State (table te))
         \<and> GameState (State (table te')) \<noteq> None"
  using assms
  by (auto simp: settleGame_def Let_def bind_res_def split: option.splits res.splits prod.splits)

lemma continueHandler_status:
  assumes "continueHandler env alivePlayers te = (err, te')"
    and "GameState (State (table te)) = None"
    and "Status (State (table te)) = TableStateStatus_TableGameStandby"
  shows "GameState (State (table te')) = None
         \<and> Status (State (table te')) \<in> {TableStateStatus_TableGameStandby, TableStateStatus_TablePausing}"
  using assms
  by (auto simp: continueHandler_def Let_def SetUpTableGame_def split: if_splits)

lemma continueGame_status:
  assumes "continueGame env te alivePlayers = (err, te')"
  shows "GameState (State (table te')) = None
         \<and> Status (State (table te')) \<in> {TableStateStatus_TableGameStandby, TableStateStatus_TablePausing}"
proof -
  let ?te1 = "set_state (\<lambda>s. s\<lparr> Status := TableStateStatus_TableGameStandby,
                                GamePlayerIndexes := [],
                                NextBBOrderPlayerIDs := [],
                                CurrentActionEndAt := 0,
                                GameState := None,
                                LastPlayerGameAction := None \<rparr>) te"
  obtain e players c where r: "resetPlayers env (PlayerStates (State (table ?te1))) (collab ?te1) = (e, players, c)"
    by (cases "resetPlayers env (PlayerStates (State (table ?te1))) (collab ?te1)") auto
  let ?te2 = "set_players players (?te1\<lparr> collab := c \<rparr>)"
  have g2: "GameState (State (table ?te2)) = None" by simp
  have s2: "Status (State (table ?te2)) = TableStateStatus_TableGameStandby" by simp
  show ?thesis
  proof (cases e)
    case (Some x)
    with assms r have "te' = ?te2" by (simp add: continueGame_def Let_def)
    then show ?thesis using g2 s2 by simp
  next
    case None
    with assms r have d: "delay env 1 autoGameOpenEndHandler ?te2 = (err, te')
        \<or> delay env (GameContinueInterval (options ?te2)) (continueHandler env alivePlayers) ?te2
            = (err, te')"
      by (simp add: continueGame_def Let_def split: if_splits)
    then show ?thesis
    proof
      assume "delay env 1 autoGameOpenEndHandler ?te2 = (err, te')"
      then have "State (table te') = State (table ?te2)"
        by (auto simp: delay_def autoGameOpenEndHandler_def split: prod.splits if_splits)
      then show ?thesis using g2 s2 by simp
    next
      assume "delay env (GameContinueInterval (options ?te2)) (continueHandler env alivePlayers) ?te2
            = (err, te')"
      then consider c' where "te' = ?te2\<lparr> collab := c' \<rparr>"
        | c' where "continueHandler env alivePlayers (?te2\<lparr> collab := c' \<rparr>) = (err, te')"
        by (auto simp: delay_def split: prod.splits if_splits)
      then show ?thesis
      proof cases
        case 1
        then show ?thesis by simp
      next
        case 2
        show ?thesis
          by (rule continueHandler_status [OF 2]) simp_all
      qed
    qed
  qed
qed

lemma startGame_status:
  assumes "startGame env te = Ok (None, te')"
  shows "Status (State (table te')) = TableStateStatus_TableGamePlaying
         \<and> GameState (State (table te')) = GameState (State (table te))"
  using assms
  by (auto simp: startGame_def Let_def bind_res_def
      split: option.splits res.splits list.splits prod.splits)


section \<open>Settlement\<close>

lemma at_index_Some:
  "at_index xs i = Some x \<longleftrightarrow> 0 \<le> i \<and> i < int (length xs) \<and> x = xs ! nat i"
  by (auto simp: at_index_def)

lemma settleRows_spec:
  assumes "settleRows env gs n w gpi rows players alive = Ok (players', alive')"
  shows "length players' = length players
    \<and> alive' = alive @ map (resultPlayer gpi) (filter (\<lambda>r. 0 < pr_Final r) rows)
    \<and> (\<forall>i < length players. i \<notin> resultPlayer gpi ` set rows \<longrightarrow> players' ! i = players ! i)
    \<and> (\<forall>r \<in> set rows. resultPlayer gpi r < length players)
    \<and> (distinct (map (resultPlayer gpi) rows)
        \<longrightarrow> (\<forall>r \<in> set rows. Bankroll (players' ! resultPlayer gpi r) = pr_Final r))"
  using assms
proof (induction rows arbitrary: players alive)
  case Nil
  then show ?case by simp
next
  case (Cons row rows)
  from Cons.prems obtain playerIdx where g: "at_index gpi (pr_Idx row) = Some playerIdx"
    by (cases "at_index gpi (pr_Idx row)") auto
  from Cons.prems g obtain playerState where p: "at_index players playerIdx = Some playerState"
    by (cases "at_index players playerIdx") auto
  from g have idx: "playerIdx = gpi ! nat (pr_Idx row)" by (simp add: at_index_Some)
  then have rp: "resultPlayer gpi row = nat playerIdx" by (simp add: resultPlayer_def)
  from p have range: "nat playerIdx < length players" by (auto simp: at_index_Some)
  define ps1 where "ps1 =
     (let playerState = playerState\<lparr> Bankroll := pr_Final row \<rparr>;
          stats = GameStatistics playerState;
          showdown = (case GetPlayer (lib_if env) gs (pr_Idx row) of
                        None \<Rightarrow> False
                      | Some p \<Rightarrow> \<not> gp_Fold p \<and> n > 1);
          stats = (if showdown
                   then (let stats = stats\<lparr> ShowdownWinningChance := True \<rparr>
                         in if playerIdx \<in> set w
                            then stats\<lparr> IsShowdownWinning := True \<rparr> else stats)
                   else stats\<lparr> ShowdownWinningChance := False \<rparr>)
      in playerState\<lparr> GameStatistics := stats \<rparr>)"
  have bank: "Bankroll ps1 = pr_Final row" by (simp add: ps1_def Let_def)
  have rec: "settleRows env gs n w gpi rows (players[nat playerIdx := ps1])
            (if 0 < pr_Final row then alive @ [nat playerIdx] else alive) = Ok (players', alive')"
    using Cons.prems bank unfolding ps1_def by (simp add: g p Let_def)
  note ih = Cons.IH [OF rec]
  have len: "length players' = length players" using ih by simp
  have alive: "alive' = alive @ map (resultPlayer gpi) (filter (\<lambda>r. 0 < pr_Final r) (row # rows))"
    using ih rp by simp
  have keep: "\<forall>i < length players. i \<notin> resultPlayer gpi ` set (row # rows) \<longrightarrow> players' ! i = players ! i"
    using ih rp by auto
  have valid: "\<forall>r \<in> set (row # rows). resultPlayer gpi r < length players"
    using ih rp range by auto
  have bankrolls: "\<forall>r \<in> set (row # rows). Bankroll (players' ! resultPlayer gpi r) = pr_Final r"
    if d: "distinct (map (resultPlayer gpi) (row # rows))"
  proof
    fix r assume "r \<in> set (row # rows)"
    then consider "r = row" | "r \<in> set rows" by auto
    then show "Bankroll (players' ! resultPlayer gpi r) = pr_Final r"
    proof cases
      case 1
      from d have "nat playerIdx \<notin> resultPlayer gpi ` set rows" using rp by auto
      then have "players' ! nat playerIdx = players[nat playerIdx := ps1] ! nat playerIdx"
        using ih range by simp
      then show ?thesis using 1 rp range bank by simp
    next
      case 2
      then show ?thesis using ih d by simp
    qed
  qed
  show ?case using len alive keep valid bankrolls by blast
qed

lemma settleRows_returns:
  "resultRowsValid gpi (length players) rows \<Longrightarrow>
   \<exists>players' alive'. settleRows env gs n w gpi rows players alive = Ok (players', alive')"
proof (induction rows arbitrary: players alive)
  case Nil
  then show ?case by simp
next
  case (Cons row rows)
  then have v: "0 \<le> pr_Idx row" "pr_Idx row < int (length gpi)"
    "0 \<le> gpi ! nat (pr_Idx row)" "gpi ! nat (pr_Idx row) < int (length players)"
    and rest: "resultRowsValid gpi (length players) rows"
    by (simp_all add: resultRowsValid_def)
  have g: "at_index gpi (pr_Idx row) = Some (gpi ! nat (pr_Idx row))"
    using v by (simp add: at_index_def)
  have p: "at_index players (gpi ! nat (pr_Idx row)) = Some (players ! nat (gpi ! nat (pr_Idx row)))"
    using v by (simp add: at_index_def)
  have rest': "resultRowsValid gpi (length (players[i := q])) rows" for i q
    using rest by simp
  show ?case
    using Cons.IH [OF rest'] by (simp add: g p Let_def)
qed


section \<open>The stages on the example table\<close>

lemmas stage_defs = settleGame_def refreshNextBBOrderPlayerIDs_def
  emitEvent_def emitTableStateEvent_def FindPlayerIndexFromGamePlayerIndex_def
  go_rem_def int64_wrap_def

lemma settle_example:
  "settleGame example_env example_engine = Ok ([0, 2], settled_engine)"
proof -
  have "map_res fst (settleGame example_env example_engine) = Ok [0, 2]"
    by (simp add: stage_defs state_defs example_defs bind_res_def at_index_def Let_def
        UnsetValue_def)
  then show ?thesis
    by (cases "settleGame example_env example_engine") (auto simp: settled_engine_def)
qed

lemma start_example:
  "startGame example_env example_engine = Ok (None, started_engine)"
proof -
  have "map_res fst (startGame example_env example_engine) = Ok None"
    by (simp add: startGame_def state_defs example_defs bind_res_def at_index_def Let_def)
  then show ?thesis
    by (cases "startGame example_env example_engine") (auto simp: started_engine_def)
qed

text \<open>
  C6, as the code has it. The status is Playing and the hand state is non-nil at
  different moments. \<open>startGame\<close>, when it succeeds, sets the status to Playing and does
  not touch the hand state, which arrives with \<open>updateGameState\<close>. \<open>settleGame\<close> sets
  the status to Settled and keeps the hand state, which it reads and which is non-nil
  when it returns. \<open>continueGame\<close> clears the hand state and leaves the status Standby or
  Pausing, not Playing.
\<close>

theorem stage_status_and_game_state:
  "(startGame env te = Ok (None, te1) \<longrightarrow>
      Status (State (table te1)) = TableStateStatus_TableGamePlaying
      \<and> GameState (State (table te1)) = GameState (State (table te)))
   \<and> (settleGame env te = Ok (alivePlayers, te2) \<longrightarrow>
      Status (State (table te2)) = TableStateStatus_TableGameSettled
      \<and> GameState (State (table te2)) = GameState (State (table te))
      \<and> GameState (State (table te2)) \<noteq> None)
   \<and> (continueGame env te alivePlayers = (err, te3) \<longrightarrow>
      GameState (State (table te3)) = None
      \<and> Status (State (table te3))
          \<in> {TableStateStatus_TableGameStandby, TableStateStatus_TablePausing}
      \<and> Status (State (table te3)) \<noteq> TableStateStatus_TableGamePlaying)"
proof (intro conjI impI)
  assume a: "startGame env te = Ok (None, te1)"
  show "Status (State (table te1)) = TableStateStatus_TableGamePlaying"
    "GameState (State (table te1)) = GameState (State (table te))"
    using startGame_status [OF a] by blast+
next
  assume a: "settleGame env te = Ok (alivePlayers, te2)"
  show "Status (State (table te2)) = TableStateStatus_TableGameSettled"
    "GameState (State (table te2)) = GameState (State (table te))"
    "GameState (State (table te2)) \<noteq> None"
    using settleGame_status [OF a] by blast+
next
  assume a: "continueGame env te alivePlayers = (err, te3)"
  show "GameState (State (table te3)) = None"
    "Status (State (table te3))
          \<in> {TableStateStatus_TableGameStandby, TableStateStatus_TablePausing}"
    using continueGame_status [OF a] by blast+
  then show "Status (State (table te3)) \<noteq> TableStateStatus_TableGamePlaying"
    by (auto simp: status_defs)
qed


theorem stage_status_and_game_state_witness:
  "startGame example_env example_engine = Ok (None, started_engine)
   \<and> Status (State (table started_engine)) = TableStateStatus_TableGamePlaying
   \<and> settleGame example_env example_engine = Ok ([0, 2], settled_engine)
   \<and> Status (State (table settled_engine)) = TableStateStatus_TableGameSettled
   \<and> GameState (State (table settled_engine)) = Some example_gs
   \<and> GameState (State (table (snd (continueGame example_env settled_engine [0, 2])))) = None
   \<and> Status (State (table (snd (continueGame example_env settled_engine [0, 2]))))
       \<noteq> TableStateStatus_TableGamePlaying"
proof -
  have g: "GameState (State (table example_engine)) = Some example_gs"
    by (simp add: example_defs)
  have c: "continueGame example_env settled_engine [0, 2]
      = (fst (continueGame example_env settled_engine [0, 2]),
         snd (continueGame example_env settled_engine [0, 2]))"
    by simp
  show ?thesis
    using start_example settle_example g c
      stage_status_and_game_state [where env = example_env and te = example_engine
        and ?te1.0 = started_engine and ?te2.0 = settled_engine and alivePlayers = "[0, 2]"
        and ?te3.0 = example_engine and err = "Some ErrGameInvalidAction"]
      stage_status_and_game_state [where env = example_env and te = settled_engine
        and alivePlayers = "[0, 2]"
        and ?te3.0 = "snd (continueGame example_env settled_engine [0, 2])"
        and err = "fst (continueGame example_env settled_engine [0, 2])"
        and ?te1.0 = example_engine and ?te2.0 = example_engine]
    by simp
qed


text \<open>
  The claim as written has the hand state nil whenever the status is not Playing. After
  \<open>settleGame\<close> on the example table the status is Settled, not Playing, and the hand
  state is still there.
\<close>

theorem settled_with_game_state_counterexample:
  "map_res (\<lambda>r. (Status (State (table (snd r))) = TableStateStatus_TableGamePlaying,
                  GameState (State (table (snd r))) = None))
     (settleGame example_env example_engine) = Ok (False, False)"
  by (simp add: stage_defs state_defs example_defs bind_res_def at_index_def Let_def
        UnsetValue_def status_defs)


text \<open>
  C7. For a table with a hand state whose result rows are well formed for it, one row
  for each player: \<open>settleGame\<close> returns; afterwards the bankroll of the player of each
  row is the \<open>Final\<close> of that row; \<open>alivePlayers\<close> holds, in the order of the rows, the
  players of the rows whose \<open>Final\<close> is positive, which are exactly the result players
  whose bankroll is now positive; the bankroll of every other player is as before.
\<close>

theorem settleGame_bankrolls_and_alive:
  assumes "GameState (State (table te)) = Some gs" and "gs_Result gs = Some results"
    and "resultRowsValid (GamePlayerIndexes (State (table te)))
           (length (PlayerStates (State (table te)))) results"
    and "distinct (map (resultPlayer (GamePlayerIndexes (State (table te)))) results)"
  shows "\<exists>alivePlayers te'.
           settleGame env te = Ok (alivePlayers, te')
           \<and> (\<forall>player \<in> set results.
                 Bankroll (PlayerStates (State (table te'))
                             ! resultPlayer (GamePlayerIndexes (State (table te))) player)
                 = pr_Final player)
           \<and> alivePlayers = map (resultPlayer (GamePlayerIndexes (State (table te))))
                               (filter (\<lambda>player. 0 < pr_Final player) results)
           \<and> set alivePlayers
               = {i \<in> resultPlayer (GamePlayerIndexes (State (table te))) ` set results.
                    0 < Bankroll (PlayerStates (State (table te')) ! i)}
           \<and> (\<forall>i < length (PlayerStates (State (table te))).
                 i \<notin> resultPlayer (GamePlayerIndexes (State (table te))) ` set results \<longrightarrow>
                 Bankroll (PlayerStates (State (table te')) ! i)
                 = Bankroll (PlayerStates (State (table te)) ! i))"
proof -
  let ?gpi = "GamePlayerIndexes (State (table te))"
  let ?te0 = "set_state (\<lambda>s. s\<lparr> Status := TableStateStatus_TableGameSettled \<rparr>) te"
  let ?n = "length (filter (\<lambda>result. case GetPlayer (lib_if env) gs (pr_Idx result) of
                                                     None \<Rightarrow> False
                                                   | Some p \<Rightarrow> \<not> gp_Fold p) results)"
  let ?w = "filter (\<lambda>playerIdx. playerIdx \<noteq> UnsetValue)
                           (map (FindPlayerIndexFromGamePlayerIndex (table ?te0))
                              (rank_GetWinners (lib_if env)
                           (map (\<lambda>player. (gp_Power player, gp_Idx player))
                              (filter (\<lambda>player. \<not> gp_Fold player) (gs_Players gs)))))"
  obtain players' alive' where
    rows: "settleRows env gs ?n ?w ?gpi results (PlayerStates (State (table te))) []
             = Ok (players', alive')"
    using settleRows_returns [OF assms(3)] by blast
  note spec = settleRows_spec [OF rows]
  define te' where "te' =
     emitTableStateEvent TableStateEvent_GameSettled
       (emitEvent ''SettleTableGameResult'' []
          (set_state (\<lambda>s. s\<lparr> NextBBOrderPlayerIDs :=
                                      refreshNextBBOrderPlayerIDs
                                        (sm_CurrentBBSeatID (sm_if env) (collab te))
                                        (TableMaxSeatCount (Meta (table te)))
                                        (PlayerStates s) (SeatMap s) \<rparr>)
             (set_players players' ?te0)))"
  have run: "settleGame env te = Ok (alive', te')"
    using assms(1,2) rows
    by (simp add: settleGame_def Let_def bind_res_def te'_def set_players_def set_state_def)
  have ps: "PlayerStates (State (table te')) = players'"
    by (simp add: te'_def)
  have bank: "\<forall>player \<in> set results. Bankroll (players' ! resultPlayer ?gpi player) = pr_Final player"
    using spec assms(4) by blast
  have alive: "alive' = map (resultPlayer ?gpi) (filter (\<lambda>player. 0 < pr_Final player) results)"
    using spec by simp
  have aset: "set alive' = {i \<in> resultPlayer ?gpi ` set results. 0 < Bankroll (players' ! i)}"
    using bank unfolding alive by auto
  have keep: "\<forall>i < length (PlayerStates (State (table te))).
                 i \<notin> resultPlayer ?gpi ` set results \<longrightarrow>
                 Bankroll (players' ! i) = Bankroll (PlayerStates (State (table te)) ! i)"
    using spec by simp
  show ?thesis
    using run bank alive aset keep unfolding ps [symmetric] by blast
qed


theorem settleGame_bankrolls_and_alive_witness:
  "GameState (State (table example_engine)) = Some example_gs
   \<and> resultRowsValid [0, 1, 2] 3 (the (gs_Result example_gs))
   \<and> distinct (map (resultPlayer [0, 1, 2]) (the (gs_Result example_gs)))
   \<and> settleGame example_env example_engine = Ok ([0, 2], settled_engine)
   \<and> Bankroll (PlayerStates (State (table settled_engine)) ! 0) = 15030
   \<and> Bankroll (PlayerStates (State (table settled_engine)) ! 1) = 0
   \<and> Bankroll (PlayerStates (State (table settled_engine)) ! 2) = 14970"
proof -
  have g: "GameState (State (table example_engine)) = Some example_gs"
    by (simp add: example_defs)
  have r: "gs_Result example_gs = Some [\<lparr> pr_Idx = 0, pr_Final = 15030 \<rparr>,
                         \<lparr> pr_Idx = 1, pr_Final = 0 \<rparr>,
                         \<lparr> pr_Idx = 2, pr_Final = 14970 \<rparr>]"
    by (simp add: example_gs_def)
  have i: "GamePlayerIndexes (State (table example_engine)) = [0, 1, 2]"
    "length (PlayerStates (State (table example_engine))) = 3"
    by (simp_all add: example_defs)
  have v: "resultRowsValid (GamePlayerIndexes (State (table example_engine)))
           (length (PlayerStates (State (table example_engine))))
           [\<lparr> pr_Idx = 0, pr_Final = 15030 \<rparr>, \<lparr> pr_Idx = 1, pr_Final = 0 \<rparr>,
            \<lparr> pr_Idx = 2, pr_Final = 14970 \<rparr>]"
    by (simp add: i resultRowsValid_def)
  have d: "distinct (map (resultPlayer (GamePlayerIndexes (State (table example_engine))))
           [\<lparr> pr_Idx = 0, pr_Final = 15030 \<rparr>, \<lparr> pr_Idx = 1, pr_Final = 0 \<rparr>,
            \<lparr> pr_Idx = 2, pr_Final = 14970 \<rparr>])"
    by (simp add: i resultPlayer_def)
  from settleGame_bankrolls_and_alive [OF g r v d, of example_env]
  obtain alivePlayers te' where
    s: "settleGame example_env example_engine = Ok (alivePlayers, te')" and
    b: "\<forall>player \<in> set [\<lparr> pr_Idx = 0, pr_Final = 15030 \<rparr>, \<lparr> pr_Idx = 1, pr_Final = 0 \<rparr>,
            \<lparr> pr_Idx = 2, pr_Final = 14970 \<rparr>].
          Bankroll (PlayerStates (State (table te'))
                      ! resultPlayer (GamePlayerIndexes (State (table example_engine))) player)
          = pr_Final player" and
    a: "alivePlayers = map (resultPlayer (GamePlayerIndexes (State (table example_engine))))
          (filter (\<lambda>player. 0 < pr_Final player)
             [\<lparr> pr_Idx = 0, pr_Final = 15030 \<rparr>, \<lparr> pr_Idx = 1, pr_Final = 0 \<rparr>,
              \<lparr> pr_Idx = 2, pr_Final = 14970 \<rparr>])"
    by blast
  have a': "alivePlayers = [0, 2]" using a by (simp add: i resultPlayer_def)
  have t: "te' = settled_engine" using s by (simp add: settled_engine_def)
  have m: "Bankroll (PlayerStates (State (table settled_engine)) ! 0) = 15030"
    "Bankroll (PlayerStates (State (table settled_engine)) ! 1) = 0"
    "Bankroll (PlayerStates (State (table settled_engine)) ! 2) = 14970"
    using b by (simp_all add: i resultPlayer_def t)
  show ?thesis
    using g r v d s a' t m by (simp add: i)
qed


section \<open>Counters through the calls\<close>

lemma tableUpdates_append [simp]: "tableUpdates (xs @ ys) = tableUpdates xs + tableUpdates ys"
  by (induction xs rule: tableUpdates.induct) simp_all

lemma bind_res_Ok: "bind_res m f = Ok r \<longleftrightarrow> (\<exists>v. m = Ok v \<and> f v = Ok r)"
  by (cases m) (simp_all add: bind_res_def)

lemma map_res_Ok: "map_res f m = Ok r \<longleftrightarrow> (\<exists>v. m = Ok v \<and> r = f v)"
  by (cases m) auto

lemma counters_set_state:
  "counters (set_state f te)
   = (GameCount (f (State (table te))), UpdateSerial (table te), tableUpdates (emitted te))"
  by (simp add: counters_def set_state_def)

lemma counters_set_players [simp]: "counters (set_players ps te) = counters te"
  by (simp add: counters_def set_players_def set_state_def)

lemma counters_modify_player [simp]: "counters (modify_player i f te) = counters te"
  by (simp add: modify_player_def Let_def)

lemma counters_modify_stats [simp]: "counters (modify_stats i f te) = counters te"
  by (simp add: modify_stats_def)

lemma counters_refreshThreeBet [simp]: "counters (refreshThreeBet a k te) = counters te"
  by (simp add: refreshThreeBet_def Let_def)

lemma counters_collab [simp]: "counters (te\<lparr> collab := c \<rparr>) = counters te"
  by (simp add: counters_def)

lemma counters_isReleased [simp]: "counters (te\<lparr> isReleased := b \<rparr>) = counters te"
  by (simp add: counters_def)

lemma counters_emitEvent [simp]: "counters (emitEvent a b te) = bumped (counters te)"
  by (simp add: counters_def emitEvent_def bumped_def)

lemma counters_emit_others [simp]:
  "counters (emitErrorEvent a b e te) = counters te"
  "counters (emitTableStateEvent ev te) = counters te"
  "counters (emitTablePlayerStateEvent p te) = counters te"
  "counters (emitTablePlayerReservedEvent p te) = counters te"
  "counters (emitGamePlayerActionEvent pga te) = counters te"
  "counters (emitReadyOpenFirstTableGame n ps te) = counters te"
  "counters (emitAutoGameOpenEnd a b te) = counters te"
  by (simp_all add: counters_def emitErrorEvent_def emitTableStateEvent_def
      emitTablePlayerStateEvent_def emitTablePlayerReservedEvent_def
      emitGamePlayerActionEvent_def emitReadyOpenFirstTableGame_def emitAutoGameOpenEnd_def)

lemma counters_if [simp]:
  "counters (if b then modify_stats i f te else te) = counters te"
  by simp

lemma pred_res_bind [simp]: "pred_res P (bind_res m f) = pred_res (\<lambda>v. pred_res P (f v)) m"
  by (cases m) (simp_all add: bind_res_def)

lemma pred_res_True [simp]: "pred_res (\<lambda>v. True) m"
  by (cases m) auto

lemma pred_res_iff: "pred_res Q m \<longleftrightarrow> (\<forall>v. m = Ok v \<longrightarrow> Q v)"
  by (cases m) auto

lemma pred_res_with:
  "pred_res R m \<Longrightarrow> pred_res Q m = (\<forall>v. m = Ok v \<longrightarrow> R v \<longrightarrow> Q v)"
  by (cases m) auto

lemma recordGameAction_counters:
  "pred_res (\<lambda>te'. counters te' = counters te)
     (recordGameAction env emit playerID playerIdx gamePlayerIdx action chips gs te)"
  by (simp add: recordGameAction_def counters_set_state Let_def counters_def [of te]
      split: option.split)

lemmas recordGameAction_step = pred_res_with [OF recordGameAction_counters]

lemma playerStateAt_step [simp]:
  "pred_res Q (playerStateAt te playerIdx)
   = (at_index (PlayerStates (State (table te))) playerIdx \<noteq> None \<longrightarrow> Q (nat playerIdx))"
  by (simp add: playerStateAt_def split: option.split)

lemma isCurrentRaiser_step [simp]:
  "pred_res Q (isCurrentRaiser env te g)
   = (\<forall>gs. game_GetGameState (game_if env) (collab te) = Some gs \<longrightarrow>
        Q (gs_CurrentRaiser (gs_Status gs) = g))"
  by (simp add: isCurrentRaiser_def split: option.split)

lemma currentGameRound_step [simp]:
  "pred_res Q (currentGameRound env te)
   = (\<forall>gs. game_GetGameState (game_if env) (collab te) = Some gs \<longrightarrow>
        Q (gs_Round (gs_Status gs)))"
  by (simp add: currentGameRound_def split: option.split)

lemma PlayerReady_counters:
  "pred_res (\<lambda>r. counters (snd r) = counters te) (PlayerReady env te playerID)"
  by (simp add: PlayerReady_def recordGameAction_step split: sum.split prod.split option.split)

lemma PlayerPay_counters:
  "pred_res (\<lambda>r. counters (snd r) = counters te) (PlayerPay env te playerID chips)"
  by (simp add: PlayerPay_def recordGameAction_step split: sum.split prod.split option.split)

lemma PlayerPass_counters:
  "pred_res (\<lambda>r. counters (snd r) = counters te) (PlayerPass env te playerID)"
  by (simp add: PlayerPass_def recordGameAction_step split: sum.split prod.split option.split)

lemma PlayerCheck_counters:
  "pred_res (\<lambda>r. counters (snd r) = counters te) (PlayerCheck env te playerID)"
  by (simp add: PlayerCheck_def recordGameAction_step Let_def
      split: sum.split prod.split option.split)

lemma PlayerCall_counters:
  "pred_res (\<lambda>r. counters (snd r) = counters te) (PlayerCall env te playerID)"
  by (simp add: PlayerCall_def recordGameAction_step Let_def
      split: sum.split prod.split option.split)

lemma PlayerFold_counters:
  "pred_res (\<lambda>r. counters (snd r) = counters te) (PlayerFold env te playerID)"
  by (simp add: PlayerFold_def recordGameAction_step Let_def
      split: sum.split prod.split option.split)

lemma PlayerBet_counters:
  "pred_res (\<lambda>r. counters (snd r) = counters te) (PlayerBet env te playerID chips)"
  by (simp add: PlayerBet_def recordGameAction_step Let_def
      split: sum.split prod.split option.split)

lemma PlayerRaise_counters:
  "pred_res (\<lambda>r. counters (snd r) = counters te) (PlayerRaise env te playerID chips)"
  by (simp add: PlayerRaise_def recordGameAction_step Let_def
      split: sum.split prod.split option.split)

lemma PlayerAllin_counters:
  "pred_res (\<lambda>r. counters (snd r) = counters te) (PlayerAllin env te playerID)"
  by (simp add: PlayerAllin_def recordGameAction_step Let_def
      split: sum.split prod.split option.split)


end
